theory Spec2Isabelle
  imports Main "HOL-Library.Sublist"
begin

section \<open>Strings and numbers as Python renders them\<close>

text \<open>
  \<^verbatim>\<open>str.replace(old, new)\<close> scans the string from the left and replaces every
  occurrence of \<open>old\<close> that does not overlap an earlier one. With an empty \<open>old\<close>
  Python inserts \<open>new\<close> before every character and at the end.
\<close>

function replace_scan :: "string \<Rightarrow> string \<Rightarrow> string \<Rightarrow> string" where
  "replace_scan [] old new = []"
| "replace_scan (c # cs) old new =
     (if old \<noteq> [] \<and> prefix old (c # cs)
      then new @ replace_scan (drop (length old) (c # cs)) old new
      else c # replace_scan cs old new)"
  by pat_completeness auto
termination
  by (relation "measure (\<lambda>(s, old, new). length s)") (auto simp: neq_Nil_conv)

definition str_replace :: "string \<Rightarrow> string \<Rightarrow> string \<Rightarrow> string" where
  "str_replace s old new =
     (if old = [] then new @ concat (map (\<lambda>c. c # new) s) else replace_scan s old new)"

text \<open>Decimal rendering of a non-negative integer (\<^verbatim>\<open>%d\<close>), and zero
    padding (\<^verbatim>\<open>%02d\<close>).\<close>

definition digit :: "nat \<Rightarrow> char" where
  "digit n = ''0123456789'' ! (n mod 10)"

function show_nat :: "nat \<Rightarrow> string" where
  "show_nat n = (if n < 10 then [digit n] else show_nat (n div 10) @ [digit n])"
  by pat_completeness auto
termination
  by (relation "measure id") auto

declare show_nat.simps [simp del]

definition pad0 :: "nat \<Rightarrow> string \<Rightarrow> string" where
  "pad0 width s = replicate (width - length s) (CHR ''0'') @ s"

section \<open>Dates and times\<close>

record datetime =
  year :: nat
  month :: nat
  day :: nat
  hour :: nat
  minute :: nat
  second :: nat
  microsecond :: nat

text \<open>\<^verbatim>\<open>datetime.date()\<close>: the calendar date of a timestamp.\<close>

definition date :: "datetime \<Rightarrow> nat \<times> nat \<times> nat" where
  "date d = (year d, month d, day d)"

text \<open>\<^verbatim>\<open>strftime('%Y-%m-%d')\<close>\<close>

definition strftime_ymd :: "datetime \<Rightarrow> string" where
  "strftime_ymd d =
     pad0 4 (show_nat (year d)) @ ''-'' @ pad0 2 (show_nat (month d)) @ ''-'' @
     pad0 2 (show_nat (day d))"

text \<open>
  \<^verbatim>\<open>logging.Formatter.formatTime\<close> with the default formats:
  \<^verbatim>\<open>'%Y-%m-%d %H:%M:%S'\<close> followed by a comma and the milliseconds, three digits.
\<close>

definition formatTime :: "datetime \<Rightarrow> string" where
  "formatTime d =
     strftime_ymd d @ '' '' @ pad0 2 (show_nat (hour d)) @ '':'' @
     pad0 2 (show_nat (minute d)) @ '':'' @ pad0 2 (show_nat (second d)) @ '','' @
     pad0 3 (show_nat (microsecond d div 1000))"

section \<open>Log records\<close>

datatype error = KeyError string | OSError string | TypeError string | ValueError string

text \<open>
  The fields of \<^verbatim>\<open>logging.LogRecord\<close> that the handlers, the filter and the
  formatter read. \<open>asctime\<close> and \<open>message\<close> are absent until a formatter sets them.

  \<open>args\<close> stands for the arguments of the log call as the operator \<^verbatim>\<open>%\<close>
  sees them: \<open>None\<close> when \<^verbatim>\<open>record.args\<close> is falsy, as it is for a call
  without arguments, and otherwise \<open>Some merge\<close>, where \<open>merge s\<close> is what
  \<^verbatim>\<open>s % record.args\<close> evaluates to: a text, or the exception it raises.
  \<open>exc_info\<close> stands for the exception information of the record: \<open>None\<close> when
  it is falsy, and otherwise the text that \<^verbatim>\<open>traceback.print_exception\<close> prints
  for it. \<open>exc_text\<close> and \<open>stack_info\<close> are the attributes of the same name.
\<close>

record LogRecord =
  name :: string
  levelno :: int
  levelname :: string
  pathname :: string
  lineno :: nat
  msg :: string
  created :: datetime
  asctime :: "string option"
  message :: "string option"
  args :: "(string \<Rightarrow> error + string) option"
  exc_info :: "string option"
  exc_text :: "string option"
  stack_info :: "string option"

text \<open>
  \<^verbatim>\<open>LogRecord.getMessage\<close>:
  \<^verbatim>\<open>msg = str(self.msg); if self.args: msg = msg % self.args; return msg\<close>.
\<close>

definition getMessage :: "LogRecord \<Rightarrow> error + string" where
  "getMessage record =
     (case args record of None \<Rightarrow> Inr (msg record) | Some merge \<Rightarrow> merge (msg record))"

section \<open>RelativePathFilter\<close>

text \<open>
  \<^verbatim>\<open>record.pathname = record.pathname.replace(os.getcwd(), "~"); return True\<close>.
  The working directory is the first argument. The record is mutated in place, so the
  model returns it next to the verdict.
\<close>

definition RelativePathFilter_filter :: "string \<Rightarrow> LogRecord \<Rightarrow> bool \<times>
    LogRecord" where
  "RelativePathFilter_filter cwd record =
     (True, record\<lparr>pathname := str_replace (pathname record) cwd ''~''\<rparr>)"

section \<open>LogLevelColors and Formatter\<close>

text \<open>
  The enum \<^verbatim>\<open>LogLevelColors\<close>, members in the order of the source.
      \<^verbatim>\<open>"\033"\<close> is the
  escape character, code 27.
\<close>

definition LogLevelColors :: "(string \<times> string) list" where
  "LogLevelColors =
     [(''DEBUG'', CHR 0x1B # ''[96m''),
      (''INFO'', CHR 0x1B # ''[92m''),
      (''WARNING'', CHR 0x1B # ''[93m''),
      (''ERROR'', CHR 0x1B # ''[33m''),
      (''CRITICAL'', CHR 0x1B # ''[91m''),
      (''ENDC'', CHR 0x1B # ''[0m'')]"

text \<open>\<^verbatim>\<open>LogLevelColors[key].value\<close>: a missing member name raises
    \<^verbatim>\<open>KeyError\<close>.\<close>

definition LogLevelColors_getitem :: "string \<Rightarrow> error + string" where
  "LogLevelColors_getitem key =
     (case map_of LogLevelColors key of None \<Rightarrow> Inl (KeyError key) | Some v \<Rightarrow> Inr v)"

definition ENDC :: string where
  "ENDC = CHR 0x1B # ''[0m''"

text \<open>The truth value of an optional text: \<^verbatim>\<open>None\<close> and the empty text are
    false.\<close>

definition truthy :: "string option \<Rightarrow> bool" where
  "truthy x = (case x of None \<Rightarrow> False | Some s \<Rightarrow> s \<noteq> [])"

text \<open>
  \<^verbatim>\<open>logging.Formatter.formatException\<close>: the printed traceback, without its last
  character if that is a line break.
\<close>

definition formatException :: "string \<Rightarrow> string" where
  "formatException printed =
     (if printed \<noteq> [] \<and> last printed = CHR 0x0A then butlast printed else printed)"

text \<open>\<^verbatim>\<open>if s[-1:] != "\n": s = s + "\n"\<close>, then
    \<^verbatim>\<open>s = s + block\<close>.\<close>

definition append_block :: "string \<Rightarrow> string \<Rightarrow> string" where
  "append_block s block =
     (if s = [] \<or> last s \<noteq> CHR 0x0A then s @ [CHR 0x0A] else s) @ block"

text \<open>
  \<^verbatim>\<open>formatMessage\<close>, that is \<^verbatim>\<open>fmt % record.__dict__\<close>, for the
  format string of the source,
  \<^verbatim>\<open>"[%(asctime)s] | %(pathname)s:%(lineno)d | %(levelname)s | %(message)s"\<close>,
  and for the format string \<^verbatim>\<open>"%(message)s"\<close> of the default formatter. A field the
  record does not have raises \<^verbatim>\<open>ValueError\<close>.
\<close>

definition Formatter_formatMessage :: "LogRecord \<Rightarrow> error + string" where
  "Formatter_formatMessage record =
     (case asctime record of
        None \<Rightarrow> Inl (ValueError ''asctime'')
      | Some a \<Rightarrow>
          (case message record of
             None \<Rightarrow> Inl (ValueError ''message'')
           | Some m \<Rightarrow>
               Inr (''['' @ a @ ''] | '' @ pathname record @ '':'' @
                    show_nat (lineno record) @ '' | '' @ levelname record @ '' | '' @ m)))"

definition default_formatMessage :: "LogRecord \<Rightarrow> error + string" where
  "default_formatMessage record =
     (case message record of None \<Rightarrow> Inl (ValueError ''message'') | Some m \<Rightarrow> Inr m)"

text \<open>
  \<^verbatim>\<open>logging.Formatter.format\<close>, for a formatter whose format string uses the time
  or not (\<open>usesTime\<close>) and is filled by \<open>formatMessage\<close>. It merges the message
  with the arguments, which can raise, stores \<open>message\<close> and, if the time is used,
  \<open>asctime\<close> in the record and fills the format string. A record with exception
  information gets its \<open>exc_text\<close> unless it has one already. A non-empty
  \<open>exc_text\<close> is appended on a line of its own, and after it a non-empty
  \<open>stack_info\<close>, which \<^verbatim>\<open>formatStack\<close> returns as it is.
\<close>

definition logging_Formatter_format ::
  "bool \<Rightarrow> (LogRecord \<Rightarrow> error + string) \<Rightarrow> LogRecord \<Rightarrow>
     error + string \<times> LogRecord" where
  "logging_Formatter_format usesTime formatMessage record =
     (case getMessage record of
        Inl e \<Rightarrow> Inl e
      | Inr m \<Rightarrow>
          (let record1 = record\<lparr>message := Some m\<rparr>;
               record2 = (if usesTime
                          then record1\<lparr>asctime := Some (formatTime (created record1))\<rparr>
                          else record1)
           in case formatMessage record2 of
                Inl e \<Rightarrow> Inl e
              | Inr s \<Rightarrow>
                  (let record3 =
                         (case exc_info record2 of
                            None \<Rightarrow> record2
                          | Some printed \<Rightarrow>
                              if truthy (exc_text record2) then record2
                              else record2\<lparr>exc_text := Some (formatException printed)\<rparr>);
                       s1 = (case exc_text record3 of
                               None \<Rightarrow> s
                             | Some t \<Rightarrow> if t = [] then s else append_block s t);
                       s2 = (case stack_info record3 of
                               None \<Rightarrow> s1
                             | Some t \<Rightarrow> if t = [] then s1 else append_block s1 t)
                   in Inr (s2, record3))))"

text \<open>
  \<^verbatim>\<open>Formatter.format\<close>: the f-string looks the colour up first, then formats, then
  appends \<^verbatim>\<open>LogLevelColors.ENDC.value\<close>.
\<close>

definition Formatter_format :: "LogRecord \<Rightarrow> error + string \<times> LogRecord" where
  "Formatter_format record =
     (case LogLevelColors_getitem (levelname record) of
        Inl e \<Rightarrow> Inl e
      | Inr color \<Rightarrow>
          (case logging_Formatter_format True Formatter_formatMessage record of
             Inl e \<Rightarrow> Inl e
           | Inr (s, record') \<Rightarrow> Inr (color @ s @ ENDC, record')))"

section \<open>The world outside the program\<close>

text \<open>
  The clock, the working directory, the file system, the standard error stream, the
  class attribute \<^verbatim>\<open>FileHandler._last_entry\<close> and the threshold
  \<^verbatim>\<open>Logger.manager.disable\<close> of the \<^verbatim>\<open>logging\<close> module, which
  is 0 until \<^verbatim>\<open>logging.disable\<close> is called. \<open>clock w n\<close> is what the
  \<open>n\<close>-th reading of the system clock returns; \<open>ticks\<close> counts the readings made
  so far. \<open>denied\<close> holds of every path the operating system refuses to create or
  open, whatever the reason. \<open>opened\<close> lists the file handles open at the moment,
  \<open>trace\<close> the effects so far, in the order they happened.

  A text is a list of \<open>char\<close>, the characters with code points below 256. The
  encoding \<^verbatim>\<open>utf-8\<close> of the file handler encodes every one of them, and
  standard error replaces what it cannot encode, so a write of such a text fails only on
  a handle that is not open.
\<close>

datatype open_mode = ModeA | ModeW

datatype iostream = Stderr | File string

datatype event =
    RecordCreated LogRecord
  | Mkdir string
  | Open string open_mode
  | Flush iostream
  | Close string
  | Write iostream string
  | SetLastEntry datetime
  | HandleError error

record world =
  clock :: "nat \<Rightarrow> datetime"
  ticks :: nat
  getcwd :: string
  dirs :: "string list"
  files :: "string \<Rightarrow> string option"
  denied :: "string \<Rightarrow> bool"
  opened :: "string list"
  stderr :: string
  trace :: "event list"
  FileHandler_last_entry :: datetime
  manager_disable :: int

text \<open>\<^verbatim>\<open>datetime.datetime.today()\<close> (and
    \<^verbatim>\<open>time.time()\<close>): one reading of the clock.\<close>

definition today :: "world \<Rightarrow> datetime \<times> world" where
  "today w = (clock w (ticks w), w\<lparr>ticks := Suc (ticks w)\<rparr>)"

text \<open>
  \<^verbatim>\<open>pathlib.Path(folder) / name\<close> as a string, for a folder in pathlib's
      normal form, and
  \<^verbatim>\<open>os.path.abspath\<close> for a path without \<^verbatim>\<open>.\<close> and
      \<^verbatim>\<open>..\<close> segments.
\<close>

definition joinpath :: "string \<Rightarrow> string \<Rightarrow> string" where
  "joinpath dir file =
     (if dir = ''.'' then file else if dir = ''/'' then ''/'' @ file else dir @ ''/'' @ file)"

definition abspath :: "string \<Rightarrow> string \<Rightarrow> string" where
  "abspath cwd p =
     (if prefix ''/'' p then p else if cwd = ''/'' then ''/'' @ p else cwd @ ''/'' @ p)"

text \<open>\<^verbatim>\<open>Path.mkdir(exist_ok=True)\<close>\<close>

definition fs_mkdir :: "world \<Rightarrow> string \<Rightarrow> error + world" where
  "fs_mkdir w p =
     (let key = abspath (getcwd w) p
      in if key \<in> set (dirs w) then Inr w
         else if denied w key \<or> files w key \<noteq> None then Inl (OSError key)
         else Inr (w\<lparr>dirs := dirs w @ [key], trace := trace w @ [Mkdir key]\<rparr>))"

text \<open>
  \<^verbatim>\<open>open(path, mode)\<close>: mode \<^verbatim>\<open>'a'\<close> creates a missing
      file and keeps the content of an
  existing one, mode \<^verbatim>\<open>'w'\<close> empties it. The handle is named by the absolute path.
\<close>

definition fs_open :: "world \<Rightarrow> string \<Rightarrow> open_mode \<Rightarrow> error +
    string \<times> world" where
  "fs_open w p m =
     (let key = abspath (getcwd w) p
      in if denied w key then Inl (OSError key)
         else Inr (key,
           w\<lparr>files := (files w)(key \<mapsto>
                (case m of
                   ModeW \<Rightarrow> []
                 | ModeA \<Rightarrow> (case files w key of None \<Rightarrow> [] | Some content
                     \<Rightarrow> content))),
             opened := opened w @ [key],
             trace := trace w @ [Open key m]\<rparr>))"

definition fs_flush :: "world \<Rightarrow> iostream \<Rightarrow> world" where
  "fs_flush w s = w\<lparr>trace := trace w @ [Flush s]\<rparr>"

definition fs_close :: "world \<Rightarrow> string \<Rightarrow> world" where
  "fs_close w key = w\<lparr>opened := remove1 key (opened w), trace := trace w @ [Close key]\<rparr>"

text \<open>Writing to a file handle that is not open raises \<^verbatim>\<open>ValueError\<close>.\<close>

definition fs_write :: "world \<Rightarrow> iostream \<Rightarrow> string \<Rightarrow> error + world" where
  "fs_write w s text =
     (case s of
        Stderr \<Rightarrow> Inr (w\<lparr>stderr := stderr w @ text, trace := trace w @ [Write
            Stderr text]\<rparr>)
      | File key \<Rightarrow>
          if key \<in> set (opened w)
          then Inr (w\<lparr>files := (files w)(key \<mapsto>
                       (case files w key of None \<Rightarrow> text | Some content \<Rightarrow>
                           content @ text)),
                     trace := trace w @ [Write (File key) text]\<rparr>)
          else Inl (ValueError ''I/O operation on closed file''))"

section \<open>Handlers\<close>

datatype filter = RelativePathFilter

datatype formatter = Formatter

text \<open>
  What \<^verbatim>\<open>logging.Handler.__init__\<close> sets: the level
      \<^verbatim>\<open>NOTSET\<close>, no filter, no formatter.
  The console handler is a \<^verbatim>\<open>logging.StreamHandler\<close> on
      \<^verbatim>\<open>sys.stderr\<close>.
\<close>

record Handler =
  level :: int
  filters :: "filter list"
  formatter :: "formatter option"

text \<open>
  The file handler of the source. \<open>last_entry\<close> is the instance attribute
  \<^verbatim>\<open>_last_entry\<close>: absent until \<^verbatim>\<open>emit\<close> assigns it,
      and until then a read of
  \<^verbatim>\<open>self._last_entry\<close> finds the class attribute.
\<close>

record FileHandler = Handler +
  folder :: string
  ext :: string
  baseFilename :: string
  mode :: open_mode
  stream :: "string option"
  closed_flag :: bool
  last_entry :: "datetime option"

definition NOTSET :: int where "NOTSET = 0"
definition DEBUG :: int where "DEBUG = 10"
definition INFO :: int where "INFO = 20"
definition WARNING :: int where "WARNING = 30"
definition ERROR :: int where "ERROR = 40"
definition CRITICAL :: int where "CRITICAL = 50"

text \<open>\<^verbatim>\<open>Filterer.filter\<close>: the first filter that returns false stops
    the record.\<close>

fun Filterer_filter :: "world \<Rightarrow> filter list \<Rightarrow> LogRecord \<Rightarrow> bool
    \<times> LogRecord" where
  "Filterer_filter w [] record = (True, record)"
| "Filterer_filter w (RelativePathFilter # fs) record =
     (case RelativePathFilter_filter (getcwd w) record of
        (result, record') \<Rightarrow>
          if result then Filterer_filter w fs record' else (False, record'))"

text \<open>\<^verbatim>\<open>Handler.format\<close>; without a formatter the default one renders
    the message alone.\<close>

definition Handler_format :: "'a Handler_scheme \<Rightarrow> LogRecord \<Rightarrow> error + string
    \<times> LogRecord" where
  "Handler_format h record =
     (case formatter h of
        Some Formatter \<Rightarrow> Formatter_format record
      | None \<Rightarrow> logging_Formatter_format False default_formatMessage record)"

text \<open>
  \<^verbatim>\<open>Handler.handleError\<close> reports the exception on standard error and returns; the
  report is kept as an event.
\<close>

definition handleError :: "world \<Rightarrow> error \<Rightarrow> world" where
  "handleError w e = w\<lparr>trace := trace w @ [HandleError e]\<rparr>"

text \<open>
  \<^verbatim>\<open>StreamHandler.emit\<close>: format, write the line and the terminator, flush; an
  exception in any of these goes to \<^verbatim>\<open>handleError\<close>.
\<close>

definition StreamHandler_emit ::
  "world \<Rightarrow> iostream \<Rightarrow> 'a Handler_scheme \<Rightarrow> LogRecord
      \<Rightarrow> world \<times> LogRecord" where
  "StreamHandler_emit w s h record =
     (case Handler_format h record of
        Inl e \<Rightarrow> (handleError w e, record)
      | Inr (line, record') \<Rightarrow>
          (case fs_write w s (line @ [CHR 0x0A]) of
             Inl e \<Rightarrow> (handleError w e, record')
           | Inr w' \<Rightarrow> (fs_flush w' s, record')))"


text \<open>\<^verbatim>\<open>logging.FileHandler._open\<close>, \<^verbatim>\<open>close\<close>
    and \<^verbatim>\<open>emit\<close>.\<close>

definition FileHandler_open :: "world \<Rightarrow> FileHandler \<Rightarrow> error + string
    \<times> world" where
  "FileHandler_open w h = fs_open w (baseFilename h) (mode h)"

definition logging_FileHandler_close :: "world \<Rightarrow> FileHandler \<Rightarrow> world
    \<times> FileHandler" where
  "logging_FileHandler_close w h =
     (case stream h of
        Some key \<Rightarrow> (fs_close (fs_flush w (File key)) key, h\<lparr>stream := None,
            closed_flag := True\<rparr>)
      | None \<Rightarrow> (w, h\<lparr>closed_flag := True\<rparr>))"

definition logging_FileHandler_emit ::
  "world \<Rightarrow> FileHandler \<Rightarrow> LogRecord \<Rightarrow> error + world \<times>
      FileHandler \<times> LogRecord" where
  "logging_FileHandler_emit w h record =
     (case stream h of
        Some key \<Rightarrow>
          (case StreamHandler_emit w (File key) h record of (w', record') \<Rightarrow> Inr (w', h, record'))
      | None \<Rightarrow>
          if mode h \<noteq> ModeW \<or> \<not> closed_flag h
          then (case FileHandler_open w h of
                  Inl e \<Rightarrow> Inl e
                | Inr (key, w1) \<Rightarrow>
                    (case StreamHandler_emit w1 (File key) h record of
                       (w', record') \<Rightarrow> Inr (w', h\<lparr>stream := Some key\<rparr>, record')))
          else Inr (w, h, record))"

section \<open>FileHandler\<close>

text \<open>
  The class body runs once, when the module is loaded:
  \<^verbatim>\<open>_last_entry: datetime.datetime = datetime.datetime.today()\<close>.
\<close>

definition FileHandler_class_body :: "world \<Rightarrow> world" where
  "FileHandler_class_body w =
     (case today w of (t, w') \<Rightarrow> w'\<lparr>FileHandler_last_entry := t\<rparr>)"

text \<open>A read of \<^verbatim>\<open>self._last_entry\<close>: the instance attribute if set,
    else the class attribute.\<close>

definition get_last_entry :: "world \<Rightarrow> FileHandler \<Rightarrow> datetime" where
  "get_last_entry w h =
     (case last_entry h of Some t \<Rightarrow> t | None \<Rightarrow> FileHandler_last_entry w)"

definition log_filename :: "datetime \<Rightarrow> string \<Rightarrow> string" where
  "log_filename t e = strftime_ymd t @ ''-'' @ e @ ''.log''"

text \<open>
  \<^verbatim>\<open>FileHandler.__init__(ext, folder)\<close>: make the folder, read the clock for the file
  name, let \<^verbatim>\<open>logging.FileHandler.__init__\<close> store the absolute path, the default mode
  \<^verbatim>\<open>'a'\<close> and the opened stream, then set the formatter.
\<close>

definition FileHandler_init :: "world \<Rightarrow> string \<Rightarrow> string \<Rightarrow> error
    + world \<times> FileHandler" where
  "FileHandler_init w e dir =
     (case fs_mkdir w dir of
        Inl err \<Rightarrow> Inl err
      | Inr w1 \<Rightarrow>
          (case today w1 of
             (t, w2) \<Rightarrow>
               (let h = \<lparr>level = NOTSET, filters = [], formatter = None,
                         folder = dir, ext = e,
                         baseFilename = abspath (getcwd w2) (joinpath dir (log_filename t e)),
                         mode = ModeA, stream = None, closed_flag = False, last_entry = None\<rparr>
                in case FileHandler_open w2 h of
                     Inl err \<Rightarrow> Inl err
                   | Inr (key, w3) \<Rightarrow>
                       Inr (w3, h\<lparr>stream := Some key, formatter := Some Formatter\<rparr>))))"

text \<open>
  \<^verbatim>\<open>FileHandler.emit\<close>, line by line: compare the dates (one reading of the clock); if
  they differ, assign \<^verbatim>\<open>self._last_entry\<close> from a second reading, close, rebuild
  \<^verbatim>\<open>baseFilename\<close> from the new \<^verbatim>\<open>_last_entry\<close>, open;
      then emit as
  \<^verbatim>\<open>logging.FileHandler\<close> does. An exception of
      \<^verbatim>\<open>_open\<close> is not caught.
\<close>

definition FileHandler_emit ::
  "world \<Rightarrow> FileHandler \<Rightarrow> LogRecord \<Rightarrow> error + world \<times>
      FileHandler \<times> LogRecord" where
  "FileHandler_emit w h record =
     (case today w of
        (t1, w1) \<Rightarrow>
          if date (get_last_entry w1 h) \<noteq> date t1
          then (case today w1 of
                  (t2, w2) \<Rightarrow>
                    (let h1 = h\<lparr>last_entry := Some t2\<rparr>;
                         w3 = w2\<lparr>trace := trace w2 @ [SetLastEntry t2]\<rparr>
                     in case logging_FileHandler_close w3 h1 of
                          (w4, h2) \<Rightarrow>
                            (let h3 = h2\<lparr>baseFilename :=
                                          joinpath (folder h2) (log_filename t2 (ext h2))\<rparr>
                             in case FileHandler_open w4 h3 of
                                  Inl err \<Rightarrow> Inl err
                                | Inr (key, w5) \<Rightarrow>
                                    logging_FileHandler_emit w5 (h3\<lparr>stream := Some
                                        key\<rparr>) record)))
          else logging_FileHandler_emit w1 h record)"


section \<open>Logger\<close>

text \<open>
  The logger keeps the console handler in \<^verbatim>\<open>_handler\<close> and the file handler, if any, in
  \<^verbatim>\<open>_file_handler\<close>; the list \<^verbatim>\<open>handlers\<close> of
      \<^verbatim>\<open>logging.Logger\<close> holds the same two
  objects, so its entries are references to these attributes.
\<close>

datatype href = HandlerRef | FileHandlerRef

record Logger =
  logger_name :: string
  logger_level :: int
  handlers :: "href list"
  handler :: Handler
  file_handler :: "FileHandler option"

text \<open>
  A call \<^verbatim>\<open>Logger(**kwargs)\<close>. All parameters are keyword-only;
      \<open>kw_other\<close> lists the
  keywords of the call that are none of \<^verbatim>\<open>name\<close>,
      \<^verbatim>\<open>level\<close>, \<^verbatim>\<open>file_logging\<close>.
\<close>

record kwargs =
  kw_name :: "string option"
  kw_level :: "int option"
  kw_file_logging :: "bool option"
  kw_other :: "string list"

text \<open>
  \<^verbatim>\<open>Logger.__init__\<close>. A keyword the signature does not have, or a missing
      \<^verbatim>\<open>name\<close>,
  raises \<^verbatim>\<open>TypeError\<close> before the body runs. The file handler is built with
  \<^verbatim>\<open>FileHandler(ext=name)\<close>, so its folder is the default
      \<^verbatim>\<open>"logs"\<close>.
\<close>

definition Logger_init :: "world \<Rightarrow> kwargs \<Rightarrow> error + world \<times> Logger" where
  "Logger_init w kw =
     (case kw_other kw of
        k # ks \<Rightarrow> Inl (TypeError k)
      | [] \<Rightarrow>
          (case kw_name kw of
             None \<Rightarrow> Inl (TypeError ''name'')
           | Some n \<Rightarrow>
               (let lvl = (case kw_level kw of None \<Rightarrow> DEBUG | Some l \<Rightarrow> l);
                    file_logging = (case kw_file_logging kw of None \<Rightarrow> False | Some b
                        \<Rightarrow> b);
                    console = \<lparr>level = NOTSET, filters = [RelativePathFilter],
                               formatter = Some Formatter\<rparr>
                in if file_logging
                   then (case FileHandler_init w n ''logs'' of
                           Inl err \<Rightarrow> Inl err
                         | Inr (w', fh) \<Rightarrow>
                             Inr (w', \<lparr>logger_name = n, logger_level = lvl,
                                       handlers = [HandlerRef, FileHandlerRef],
                                       handler = console,
                                       file_handler =
                                         Some (fh\<lparr>filters := filters fh @
                                             [RelativePathFilter]\<rparr>)\<rparr>))
                   else Inr (w, \<lparr>logger_name = n, logger_level = lvl,
                                  handlers = [HandlerRef], handler = console,
                                  file_handler = None\<rparr>))))"


definition show_int :: "int \<Rightarrow> string" where
  "show_int i = (if i < 0 then ''-'' @ show_nat (nat (- i)) else show_nat (nat i))"

text \<open>\<^verbatim>\<open>logging.getLevelName\<close>\<close>

definition getLevelName :: "int \<Rightarrow> string" where
  "getLevelName lvl =
     (if lvl = CRITICAL then ''CRITICAL''
      else if lvl = ERROR then ''ERROR''
      else if lvl = WARNING then ''WARNING''
      else if lvl = INFO then ''INFO''
      else if lvl = DEBUG then ''DEBUG''
      else if lvl = NOTSET then ''NOTSET''
      else ''Level '' @ show_int lvl)"









section \<open>Observing a run\<close>

text \<open>The effects that happened between two states of the world.\<close>

definition new_events :: "world \<Rightarrow> world \<Rightarrow> event list" where
  "new_events w w' = drop (length (trace w)) (trace w')"

text \<open>
  The file handles open before the first event, between the events and after the last
  one, replayed from the events.
\<close>

fun open_after :: "string list \<Rightarrow> event \<Rightarrow> string list" where
  "open_after hs (Open key m) = hs @ [key]"
| "open_after hs (Close key) = remove1 key hs"
| "open_after hs e = hs"

fun handles_during :: "string list \<Rightarrow> event list \<Rightarrow> string list list" where
  "handles_during hs [] = [hs]"
| "handles_during hs (e # es) = hs # handles_during (open_after hs e) es"




text \<open>What a call returned, if it returned.\<close>

definition outcome :: "error + 'a \<Rightarrow> 'a option" where
  "outcome r = (case r of Inl e \<Rightarrow> None | Inr x \<Rightarrow> Some x)"

text \<open>The five severities that have a log method and a colour.\<close>

definition severities :: "int list" where
  "severities = [DEBUG, INFO, WARNING, ERROR, CRITICAL]"


text \<open>
  A file handler in the state \<open>Open\<close>: it holds a handle that is open in the world, in
  append mode, and renders with the formatter of the source.
\<close>

definition sink_open :: "world \<Rightarrow> FileHandler \<Rightarrow> bool" where
  "sink_open w h =
     (case stream h of
        None \<Rightarrow> False
      | Some key \<Rightarrow> key \<in> set (opened w) \<and> mode h = ModeA \<and> formatter h =
          Some Formatter)"


section \<open>Example runs\<close>

definition day1 :: datetime where
  "day1 = \<lparr>year = 2021, month = 8, day = 29, hour = 17, minute = 5, second = 32,
           microsecond = 0\<rparr>"

definition day2 :: datetime where
  "day2 = \<lparr>year = 2021, month = 8, day = 30, hour = 9, minute = 0, second = 0,
           microsecond = 250000\<rparr>"

text \<open>A clock whose first reading falls on the first day and every later one on the second.\<close>

definition clock_next_day :: "nat \<Rightarrow> datetime" where
  "clock_next_day n = (if n = 0 then day1 else day2)"

text \<open>A clock that is set back: the first reading on the second day, the later ones on the
    first.\<close>

definition clock_set_back :: "nat \<Rightarrow> datetime" where
  "clock_set_back n = (if n = 0 then day2 else day1)"

definition clock_day1 :: "nat \<Rightarrow> datetime" where
  "clock_day1 n = day1"

definition nothing :: "string \<Rightarrow> string option" where
  "nothing p = None"

definition permissive :: "string \<Rightarrow> bool" where
  "permissive p = False"

text \<open>
  The world when the interpreter starts in \<open>/app\<close> with an empty file system; the class
  attribute gets its value when the class body runs.
\<close>

definition boot :: "(nat \<Rightarrow> datetime) \<Rightarrow> world" where
  "boot clk =
     \<lparr>clock = clk, ticks = 0, getcwd = ''/app'', dirs = [], files = nothing,
      denied = permissive, opened = [], stderr = [], trace = [],
      FileHandler_last_entry = clk 0, manager_disable = 0\<rparr>"

definition hello :: LogRecord where
  "hello =
     \<lparr>name = ''application'', levelno = 20, levelname = ''INFO'',
      pathname = ''/app/main.py'', lineno = 7, msg = ''Hello, world!'',
      created = day1, asctime = None, message = None, args = None, exc_info = None,
      exc_text = None, stack_info = None\<rparr>"

definition app_kwargs :: kwargs where
  "app_kwargs = \<lparr>kw_name = Some ''application'', kw_level = None, kw_file_logging = None,
                  kw_other = []\<rparr>"

definition clock_day2 :: "nat \<Rightarrow> datetime" where
  "clock_day2 n = day2"

text \<open>
  A file handler of the logger \<open>application\<close> that has rotated to the day of \<open>t\<close>, and
  a world in which its file is open and the clock reads \<open>clk\<close> from now on.
\<close>

definition sink_on :: "datetime \<Rightarrow> FileHandler" where
  "sink_on t =
     \<lparr>level = NOTSET, filters = [RelativePathFilter], formatter = Some Formatter,
      folder = ''logs'', ext = ''application'',
      baseFilename = joinpath ''logs'' (log_filename t ''application''),
      mode = ModeA,
      stream = Some (abspath ''/app'' (joinpath ''logs'' (log_filename t ''application''))),
      closed_flag = True, last_entry = Some t\<rparr>"

definition running :: "(nat \<Rightarrow> datetime) \<Rightarrow> datetime \<Rightarrow> world" where
  "running clk t =
     \<lparr>clock = clk, ticks = 0, getcwd = ''/app'', dirs = [''/app/logs''],
      files = nothing(abspath ''/app'' (joinpath ''logs'' (log_filename t ''application'')) \<mapsto> []),
      denied = permissive,
      opened = [abspath ''/app'' (joinpath ''logs'' (log_filename t ''application''))],
      stderr = [], trace = [], FileHandler_last_entry = day1, manager_disable = 0\<rparr>"

text \<open>
  The record of a call \<^verbatim>\<open>error("boom", exc_info=ValueError("bad"))\<close>, and the
  record of a call \<^verbatim>\<open>info(GREETING, stack_info=True)\<close> made at the top level
  of \<open>/app/main.py\<close>.
\<close>

definition failed :: LogRecord where
  "failed =
     hello\<lparr>levelno := 40, levelname := ''ERROR'', msg := ''boom'',
           exc_info := Some (''ValueError: bad'' @ [CHR 0x0A])\<rparr>"

definition stack_text :: string where
  "stack_text =
     ''Stack (most recent call last):'' @ [CHR 0x0A] @
     ''  File '' @ [CHR 0x22] @ ''/app/main.py'' @ [CHR 0x22] @ '', line 7, in <module>'' @
     [CHR 0x0A] @ ''    log.info(GREETING, stack_info=True)''"

definition traced :: LogRecord where
  "traced = hello\<lparr>stack_info := Some stack_text\<rparr>"

definition two_lines :: LogRecord where
  "two_lines = hello\<lparr>msg := ''first'' @ [CHR 0x0A] @ ''second''\<rparr>"

section \<open>Properties of the replacement\<close>

lemma replace_scan_prefix_free:
  "new = ''~'' \<Longrightarrow> CHR ''~'' \<notin> set t \<Longrightarrow> prefix t (replace_scan s
      old new) \<Longrightarrow> prefix t s"
proof (induction s old new arbitrary: t rule: replace_scan.induct)
  case (1 old new)
  then show ?case by simp
next
  case (2 c cs old new)
  show ?case
  proof (cases "old \<noteq> [] \<and> prefix old (c # cs)")
    case True
    with "2.prems" show ?thesis by (cases t) auto
  next
    case False
    show ?thesis
    proof (cases t)
      case Nil
      then show ?thesis by simp
    next
      case (Cons a t')
      with False "2.prems" have "a = c" and "prefix t' (replace_scan cs old new)"
        and "CHR ''~'' \<notin> set t'"
        by auto
      with "2.IH"(2)[OF False "2.prems"(1)] Cons show ?thesis by simp
    qed
  qed
qed

lemma replace_scan_no_occurrence:
  "new = ''~'' \<Longrightarrow> old \<noteq> [] \<Longrightarrow> CHR ''~'' \<notin> set old
      \<Longrightarrow>
   \<not> sublist old (replace_scan s old new)"
proof (induction s old new rule: replace_scan.induct)
  case (1 old new)
  then show ?case by simp
next
  case (2 c cs old new)
  show ?case
  proof (cases "old \<noteq> [] \<and> prefix old (c # cs)")
    case True
    from "2.prems" have "\<not> prefix old (new @ replace_scan (drop (length old) (c # cs)) old new)"
      by (cases old) auto
    with True "2.IH"(1)[OF True "2.prems"] "2.prems"(1) show ?thesis
      by (simp add: sublist_Cons_right)
  next
    case False
    have "\<not> prefix old (c # replace_scan cs old new)"
    proof
      assume "prefix old (c # replace_scan cs old new)"
      moreover from False have "replace_scan (c # cs) old new = c # replace_scan cs old new"
        by auto
      ultimately have "prefix old (replace_scan (c # cs) old new)" by simp
      with "2.prems"(1,3) have "prefix old (c # cs)" by (rule replace_scan_prefix_free)
      with False "2.prems"(2) show False by simp
    qed
    with False "2.IH"(2)[OF False "2.prems"] show ?thesis
      by (auto simp: sublist_Cons_right)
  qed
qed

lemma replace_scan_absent: "\<not> sublist old s \<Longrightarrow> replace_scan s old new = s"
proof (induction s old new rule: replace_scan.induct)
  case (1 old new)
  then show ?case by simp
next
  case (2 c cs old new)
  from "2.prems" have np: "\<not> prefix old (c # cs)" and ns: "\<not> sublist old cs"
    by (auto simp: sublist_Cons_right)
  with "2.IH"(2) show ?case by simp
qed

lemma replace_scan_leading:
  "old \<noteq> [] \<Longrightarrow> replace_scan (old @ s) old new = new @ replace_scan s old new"
  by (cases old) auto

section \<open>Claims about the path filter\<close>

text \<open>
  C10. For every log record the path filter returns \<open>True\<close>, so a handler that carries it
  never drops a record because of it, and the record it leaves behind differs from the
  record it was given in the \<open>pathname\<close> field only: putting the old path back gives the
  old record.
\<close>

theorem RelativePathFilter_keeps_record:
  "fst (RelativePathFilter_filter cwd record) = True \<and>
   (snd (RelativePathFilter_filter cwd record))\<lparr>pathname := pathname record\<rparr> = record"
  by (simp add: RelativePathFilter_filter_def)

text \<open>
  C4, as the spec states it, fails: the filter replaces every occurrence of the working
  directory, not only a leading one. With the working directory \<open>/app\<close> the path
  \<open>/app/venv/app/main.py\<close> becomes \<open>~/venv~/main.py\<close>; the remainder after the leading
  occurrence, \<open>/venv/app/main.py\<close>, is not left as it was.
\<close>

theorem RelativePathFilter_inner_occurrence_counterexample:
  "pathname (snd (RelativePathFilter_filter ''/app''
     \<lparr>name = ''application'', levelno = 20, levelname = ''INFO'',
      pathname = ''/app/venv/app/main.py'', lineno = 7, msg = ''Hello, world!'',
      created = \<lparr>year = 2021, month = 8, day = 29, hour = 17, minute = 5, second = 32,
                 microsecond = 0\<rparr>,
      asctime = None, message = None, args = None, exc_info = None,
      exc_text = None, stack_info = None\<rparr>)) = ''~/venv~/main.py'' \<and>
   pathname (snd (RelativePathFilter_filter ''/app''
     \<lparr>name = ''application'', levelno = 20, levelname = ''INFO'',
      pathname = ''/app/venv/app/main.py'', lineno = 7, msg = ''Hello, world!'',
      created = \<lparr>year = 2021, month = 8, day = 29, hour = 17, minute = 5, second = 32,
                 microsecond = 0\<rparr>,
      asctime = None, message = None, args = None, exc_info = None,
      exc_text = None, stack_info = None\<rparr>)) \<noteq> ''~'' @ ''/venv/app/main.py''"
  by (simp add: RelativePathFilter_filter_def str_replace_def)

text \<open>
  C4, amended. For a non-empty working directory the filter replaces every occurrence of
  it, scanning from the left and skipping past each occurrence it replaces. The three
  cases of the scan: an empty text stays empty; a text that starts with the working
  directory becomes \<open>~\<close> followed by the result for the text behind that occurrence; a
  text that does not start with it keeps its first character, followed by the result for
  the text behind that character. So a path that starts with the working directory becomes
  \<open>~\<close> followed by the filtered remainder; a remainder in which the working directory
  does not occur is left unchanged, and so is a whole record in whose path it does not
  occur.
\<close>

theorem RelativePathFilter_replaces_every_occurrence:
  assumes "cwd \<noteq> []"
  shows "(pathname record = cwd @ rest \<longrightarrow>
            pathname (snd (RelativePathFilter_filter cwd record)) =
              ''~'' @ str_replace rest cwd ''~'') \<and>
         (\<not> sublist cwd rest \<longrightarrow> str_replace rest cwd ''~'' = rest) \<and>
         (\<not> sublist cwd (pathname record) \<longrightarrow>
            snd (RelativePathFilter_filter cwd record) = record) \<and>
         pathname (snd (RelativePathFilter_filter cwd record)) =
           str_replace (pathname record) cwd ''~'' \<and>
         str_replace [] cwd ''~'' = [] \<and>
         str_replace (cwd @ s) cwd ''~'' = ''~'' @ str_replace s cwd ''~'' \<and>
         (\<not> prefix cwd (c # s) \<longrightarrow>
            str_replace (c # s) cwd ''~'' = c # str_replace s cwd ''~'')"
  using assms
  by (simp add: RelativePathFilter_filter_def str_replace_def replace_scan_leading
      replace_scan_absent)

theorem RelativePathFilter_replaces_every_occurrence_witness:
  "pathname (snd (RelativePathFilter_filter ''/app''
     \<lparr>name = ''application'', levelno = 20, levelname = ''INFO'',
      pathname = ''/app/src/main.py'', lineno = 7, msg = ''Hello, world!'',
      created = \<lparr>year = 2021, month = 8, day = 29, hour = 17, minute = 5, second = 32,
                 microsecond = 0\<rparr>,
      asctime = None, message = None, args = None, exc_info = None,
      exc_text = None, stack_info = None\<rparr>)) = ''~/src/main.py'' \<and>
   str_replace ''/src/main.py'' ''/app'' ''~'' = ''/src/main.py'' \<and>
   snd (RelativePathFilter_filter ''/app''
     \<lparr>name = ''application'', levelno = 20, levelname = ''INFO'',
      pathname = ''/usr/lib/python3/site.py'', lineno = 7, msg = ''Hello, world!'',
      created = \<lparr>year = 2021, month = 8, day = 29, hour = 17, minute = 5, second = 32,
                 microsecond = 0\<rparr>,
      asctime = None, message = None, args = None, exc_info = None,
      exc_text = None, stack_info = None\<rparr>) =
     \<lparr>name = ''application'', levelno = 20, levelname = ''INFO'',
      pathname = ''/usr/lib/python3/site.py'', lineno = 7, msg = ''Hello, world!'',
      created = \<lparr>year = 2021, month = 8, day = 29, hour = 17, minute = 5, second = 32,
                 microsecond = 0\<rparr>,
      asctime = None, message = None, args = None, exc_info = None,
      exc_text = None, stack_info = None\<rparr> \<and>
   str_replace ''/srv/app/main.py'' ''/app'' ''~'' = ''/srv~/main.py'' \<and>
   str_replace ''/srv/app/main.py'' ''/app'' ''~'' =
     CHR ''/'' # str_replace ''srv/app/main.py'' ''/app'' ''~''"
proof -
  have a: "pathname (snd (RelativePathFilter_filter ''/app''
     \<lparr>name = ''application'', levelno = 20, levelname = ''INFO'',
      pathname = ''/app/src/main.py'', lineno = 7, msg = ''Hello, world!'',
      created = \<lparr>year = 2021, month = 8, day = 29, hour = 17, minute = 5, second = 32,
                 microsecond = 0\<rparr>,
      asctime = None, message = None, args = None, exc_info = None,
      exc_text = None, stack_info = None\<rparr>)) = ''~/src/main.py'' \<and>
   str_replace ''/src/main.py'' ''/app'' ''~'' = ''/src/main.py''"
    using RelativePathFilter_replaces_every_occurrence [of "''/app''"
     "\<lparr>name = ''application'', levelno = 20, levelname = ''INFO'',
      pathname = ''/app/src/main.py'', lineno = 7, msg = ''Hello, world!'',
      created = \<lparr>year = 2021, month = 8, day = 29, hour = 17, minute = 5, second = 32,
                 microsecond = 0\<rparr>,
      asctime = None, message = None, args = None, exc_info = None,
      exc_text = None, stack_info = None\<rparr>" "''/src/main.py''"]
    by (simp add: sublist_code)
  have b: "snd (RelativePathFilter_filter ''/app''
     \<lparr>name = ''application'', levelno = 20, levelname = ''INFO'',
      pathname = ''/usr/lib/python3/site.py'', lineno = 7, msg = ''Hello, world!'',
      created = \<lparr>year = 2021, month = 8, day = 29, hour = 17, minute = 5, second = 32,
                 microsecond = 0\<rparr>,
      asctime = None, message = None, args = None, exc_info = None,
      exc_text = None, stack_info = None\<rparr>) =
     \<lparr>name = ''application'', levelno = 20, levelname = ''INFO'',
      pathname = ''/usr/lib/python3/site.py'', lineno = 7, msg = ''Hello, world!'',
      created = \<lparr>year = 2021, month = 8, day = 29, hour = 17, minute = 5, second = 32,
                 microsecond = 0\<rparr>,
      asctime = None, message = None, args = None, exc_info = None,
      exc_text = None, stack_info = None\<rparr>"
    using RelativePathFilter_replaces_every_occurrence [of "''/app''"
     "\<lparr>name = ''application'', levelno = 20, levelname = ''INFO'',
      pathname = ''/usr/lib/python3/site.py'', lineno = 7, msg = ''Hello, world!'',
      created = \<lparr>year = 2021, month = 8, day = 29, hour = 17, minute = 5, second = 32,
                 microsecond = 0\<rparr>,
      asctime = None, message = None, args = None, exc_info = None,
      exc_text = None, stack_info = None\<rparr>"]
    by (simp add: sublist_code)
  have c: "str_replace ''/srv/app/main.py'' ''/app'' ''~'' =
     CHR ''/'' # str_replace ''srv/app/main.py'' ''/app'' ''~''"
    using RelativePathFilter_replaces_every_occurrence [where cwd = "''/app''"
        and c = "CHR ''/''" and s = "''srv/app/main.py''"]
    by simp
  have d: "str_replace ''/srv/app/main.py'' ''/app'' ''~'' = ''/srv~/main.py''"
    unfolding c by (simp add: str_replace_def)
  from a b c d show ?thesis by simp
qed

text \<open>
  C5, as the spec states it, fails when the working directory itself contains the marker
  character: a replacement can then complete a new occurrence. With the working
  directory \<open>/~\<close> the path \<open>//~/main.py\<close> becomes \<open>/~/main.py\<close>,
      and filtering that
  again gives \<open>~/main.py\<close>.
\<close>

theorem RelativePathFilter_not_idempotent_counterexample:
  "snd (RelativePathFilter_filter ''/~'' (snd (RelativePathFilter_filter ''/~''
     \<lparr>name = ''application'', levelno = 20, levelname = ''INFO'',
      pathname = ''//~/main.py'', lineno = 7, msg = ''Hello, world!'',
      created = \<lparr>year = 2021, month = 8, day = 29, hour = 17, minute = 5, second = 32,
                 microsecond = 0\<rparr>,
      asctime = None, message = None, args = None, exc_info = None,
      exc_text = None, stack_info = None\<rparr>))) \<noteq>
   snd (RelativePathFilter_filter ''/~''
     \<lparr>name = ''application'', levelno = 20, levelname = ''INFO'',
      pathname = ''//~/main.py'', lineno = 7, msg = ''Hello, world!'',
      created = \<lparr>year = 2021, month = 8, day = 29, hour = 17, minute = 5, second = 32,
                 microsecond = 0\<rparr>,
      asctime = None, message = None, args = None, exc_info = None,
      exc_text = None, stack_info = None\<rparr>)"
  by (simp add: RelativePathFilter_filter_def str_replace_def)

text \<open>
  C5, amended. When the working directory is non-empty and does not contain the marker
  character \<open>~\<close>, filtering a filtered record changes nothing. The filter has no failing
  branch: it returns a record for every record and every working directory.
\<close>

theorem RelativePathFilter_idempotent:
  assumes "cwd \<noteq> []" and "CHR ''~'' \<notin> set cwd"
  shows "snd (RelativePathFilter_filter cwd (snd (RelativePathFilter_filter cwd record))) =
         snd (RelativePathFilter_filter cwd record)"
proof -
  have "\<not> sublist cwd (replace_scan (pathname record) cwd ''~'')"
    using assms by (simp add: replace_scan_no_occurrence)
  then have "replace_scan (replace_scan (pathname record) cwd ''~'') cwd ''~'' =
             replace_scan (pathname record) cwd ''~''"
    by (rule replace_scan_absent)
  with assms(1) show ?thesis
    by (simp add: RelativePathFilter_filter_def str_replace_def)
qed

theorem RelativePathFilter_idempotent_witness:
  "snd (RelativePathFilter_filter ''/app'' (snd (RelativePathFilter_filter ''/app''
     \<lparr>name = ''application'', levelno = 20, levelname = ''INFO'',
      pathname = ''/app/venv/app/main.py'', lineno = 7, msg = ''Hello, world!'',
      created = \<lparr>year = 2021, month = 8, day = 29, hour = 17, minute = 5, second = 32,
                 microsecond = 0\<rparr>,
      asctime = None, message = None, args = None, exc_info = None,
      exc_text = None, stack_info = None\<rparr>))) =
   snd (RelativePathFilter_filter ''/app''
     \<lparr>name = ''application'', levelno = 20, levelname = ''INFO'',
      pathname = ''/app/venv/app/main.py'', lineno = 7, msg = ''Hello, world!'',
      created = \<lparr>year = 2021, month = 8, day = 29, hour = 17, minute = 5, second = 32,
                 microsecond = 0\<rparr>,
      asctime = None, message = None, args = None, exc_info = None,
      exc_text = None, stack_info = None\<rparr>) \<and>
   pathname (snd (RelativePathFilter_filter ''/app''
     \<lparr>name = ''application'', levelno = 20, levelname = ''INFO'',
      pathname = ''/app/venv/app/main.py'', lineno = 7, msg = ''Hello, world!'',
      created = \<lparr>year = 2021, month = 8, day = 29, hour = 17, minute = 5, second = 32,
                 microsecond = 0\<rparr>,
      asctime = None, message = None, args = None, exc_info = None,
      exc_text = None, stack_info = None\<rparr>)) = ''~/venv~/main.py''"
  using RelativePathFilter_idempotent [of "''/app''"
     "\<lparr>name = ''application'', levelno = 20, levelname = ''INFO'',
      pathname = ''/app/venv/app/main.py'', lineno = 7, msg = ''Hello, world!'',
      created = \<lparr>year = 2021, month = 8, day = 29, hour = 17, minute = 5, second = 32,
                 microsecond = 0\<rparr>,
      asctime = None, message = None, args = None, exc_info = None,
      exc_text = None, stack_info = None\<rparr>"]
  by (simp add: RelativePathFilter_filter_def str_replace_def)

section \<open>Claims about the formatter\<close>

lemma digit_in: "digit n \<in> set ''0123456789''"
  unfolding digit_def by (rule nth_mem) simp

lemma newline_notin_show_nat: "CHR 0x0A \<notin> set (show_nat n)"
proof (induction n rule: show_nat.induct)
  case (1 n)
  have d: "digit n \<noteq> CHR 0x0A" using digit_in [of n] by auto
  show ?case
  proof (cases "n < 10")
    case True
    with d show ?thesis by (subst show_nat.simps) simp
  next
    case False
    with d "1.IH" show ?thesis by (subst show_nat.simps) simp
  qed
qed

lemma newline_notin_pad0: "CHR 0x0A \<notin> set (pad0 k (show_nat n))"
  by (simp add: pad0_def newline_notin_show_nat)

lemma newline_notin_formatTime: "CHR 0x0A \<notin> set (formatTime d)"
  by (simp add: formatTime_def strftime_ymd_def newline_notin_pad0)

lemma severity_names:
  "map getLevelName severities = [''DEBUG'', ''INFO'', ''WARNING'', ''ERROR'', ''CRITICAL'']"
  by (simp add: severities_def getLevelName_def DEBUG_def INFO_def WARNING_def ERROR_def
      CRITICAL_def NOTSET_def)

lemma color_lookup:
  assumes "levelname record \<in> set (map getLevelName severities)"
  shows "\<exists>color. LogLevelColors_getitem (levelname record) = Inr color \<and>
                 CHR 0x0A \<notin> set color \<and> CHR 0x0A \<notin> set (levelname record)"
proof -
  from assms have "levelname record \<in> set [''DEBUG'', ''INFO'', ''WARNING'', ''ERROR'', ''CRITICAL'']"
    by (simp only: severity_names)
  then consider "levelname record = ''DEBUG''" | "levelname record = ''INFO''"
    | "levelname record = ''WARNING''" | "levelname record = ''ERROR''"
    | "levelname record = ''CRITICAL''"
    by auto
  then show ?thesis
    by cases (simp_all add: LogLevelColors_getitem_def LogLevelColors_def)
qed

lemma append_block_prefix: "prefix a s \<Longrightarrow> prefix a (append_block s t)"
  by (auto simp: append_block_def prefix_def)

lemma append_block_line:
  "s \<noteq> [] \<Longrightarrow> last s \<noteq> CHR 0x0A \<Longrightarrow> append_block s t = s @ [CHR 0x0A] @ t"
  by (simp add: append_block_def)

lemma getMessage_updates:
  "getMessage (record\<lparr>pathname := p\<rparr>) = getMessage record"
  "getMessage (record\<lparr>message := x\<rparr>) = getMessage record"
  "getMessage (record\<lparr>asctime := y\<rparr>) = getMessage record"
  "getMessage (record\<lparr>exc_text := z\<rparr>) = getMessage record"
  by (simp_all add: getMessage_def split: option.splits)

lemma logging_Formatter_format_Inr:
  assumes "getMessage record = Inr m"
  shows "\<exists>text record'.
           logging_Formatter_format True Formatter_formatMessage record = Inr (text, record') \<and>
           prefix (''['' @ formatTime (created record) @ ''] | '' @ pathname record @
                   '':'' @ show_nat (lineno record) @ '' | '' @ levelname record @ '' | '' @ m)
             text \<and>
           levelname record' = levelname record \<and> levelno record' = levelno record \<and>
           getMessage record' = Inr m"
proof -
  define record2 where
    "record2 = record\<lparr>message := Some m, asctime := Some (formatTime (created record))\<rparr>"
  define record3 where
    "record3 = (case exc_info record2 of
                  None \<Rightarrow> record2
                | Some printed \<Rightarrow>
                    if truthy (exc_text record2) then record2
                    else record2\<lparr>exc_text := Some (formatException printed)\<rparr>)"
  define s where
    "s = ''['' @ formatTime (created record) @ ''] | '' @ pathname record @
         '':'' @ show_nat (lineno record) @ '' | '' @ levelname record @ '' | '' @ m"
  define s1 where
    "s1 = (case exc_text record3 of
             None \<Rightarrow> s | Some t \<Rightarrow> if t = [] then s else append_block s t)"
  define s2 where
    "s2 = (case stack_info record3 of
             None \<Rightarrow> s1 | Some t \<Rightarrow> if t = [] then s1 else append_block s1 t)"
  have f: "logging_Formatter_format True Formatter_formatMessage record = Inr (s2, record3)"
    using assms
    by (auto simp: logging_Formatter_format_def Formatter_formatMessage_def Let_def
        s2_def s1_def s_def record3_def record2_def split: option.splits)
  have p1: "prefix s s1"
    by (simp add: s1_def append_block_prefix split: option.splits)
  then have p2: "prefix s s2"
    by (simp add: s2_def append_block_prefix split: option.splits)
  have k: "levelname record3 = levelname record \<and> levelno record3 = levelno record \<and>
           getMessage record3 = Inr m"
    using assms
    by (simp add: record3_def record2_def getMessage_updates split: option.splits)
  from f p2 k show ?thesis unfolding s_def by blast
qed

lemma logging_Formatter_format_plain:
  assumes "getMessage record = Inr m" and "exc_info record = None"
    and "\<not> truthy (exc_text record)" and "\<not> truthy (stack_info record)"
  shows "logging_Formatter_format True Formatter_formatMessage record =
           Inr (''['' @ formatTime (created record) @ ''] | '' @ pathname record @
                '':'' @ show_nat (lineno record) @ '' | '' @ levelname record @ '' | '' @ m,
                record\<lparr>message := Some m,
                       asctime := Some (formatTime (created record))\<rparr>)"
  using assms
  by (simp add: logging_Formatter_format_def Formatter_formatMessage_def Let_def truthy_def
      split: option.splits)

lemma logging_Formatter_format_exception:
  assumes "getMessage record = Inr m" and "exc_info record = Some printed"
    and "\<not> truthy (exc_text record)" and "\<not> truthy (stack_info record)"
    and "formatException printed \<noteq> []" and "m = [] \<or> last m \<noteq> CHR 0x0A"
  shows "\<exists>record'.
           logging_Formatter_format True Formatter_formatMessage record =
             Inr ((''['' @ formatTime (created record) @ ''] | '' @ pathname record @
                   '':'' @ show_nat (lineno record) @ '' | '' @ levelname record @ '' | '' @ m) @
                  [CHR 0x0A] @ formatException printed, record')"
  using assms
  by (auto simp: logging_Formatter_format_def Formatter_formatMessage_def Let_def truthy_def
      append_block_def split: option.splits)

lemma logging_Formatter_format_stack:
  assumes "getMessage record = Inr m" and "exc_info record = None"
    and "\<not> truthy (exc_text record)" and "stack_info record = Some stack"
    and "stack \<noteq> []" and "m = [] \<or> last m \<noteq> CHR 0x0A"
  shows "\<exists>record'.
           logging_Formatter_format True Formatter_formatMessage record =
             Inr ((''['' @ formatTime (created record) @ ''] | '' @ pathname record @
                   '':'' @ show_nat (lineno record) @ '' | '' @ levelname record @ '' | '' @ m) @
                  [CHR 0x0A] @ stack, record')"
  using assms
  by (auto simp: logging_Formatter_format_def Formatter_formatMessage_def Let_def truthy_def
      append_block_def split: option.splits)

lemma Formatter_format_Inr:
  assumes "LogLevelColors_getitem (levelname record) = Inr color"
    and "logging_Formatter_format True Formatter_formatMessage record = Inr (text, record')"
  shows "Formatter_format record = Inr (color @ text @ ENDC, record')"
  using assms by (simp add: Formatter_format_def)

lemma Formatter_format_merge_error:
  assumes "LogLevelColors_getitem (levelname record) = Inr color"
    and "getMessage record = Inl e"
  shows "Formatter_format record = Inl e"
  using assms by (simp add: Formatter_format_def logging_Formatter_format_def)

lemma replicate_numeral: "replicate (numeral k) x = x # replicate (pred_numeral k) x"
  by (simp add: numeral_eq_Suc)

lemmas render_simps = formatTime_def strftime_ymd_def pad0_def digit_def show_nat.simps
  replicate_numeral

lemmas format_simps = Formatter_format_def LogLevelColors_getitem_def LogLevelColors_def
  logging_Formatter_format_def Formatter_formatMessage_def getMessage_def Let_def ENDC_def

text \<open>
  C6, as the spec states it, fails for a message that contains a line break: the
  formatter copies the message as it is, so the rendered text has two lines.
\<close>

theorem Formatter_format_two_lines_counterexample:
  "Formatter_format two_lines =
     Inr (CHR 0x1B # ''[92m[2021-08-29 17:05:32,000] | /app/main.py:7 | INFO | first'' @
          [CHR 0x0A] @ ''second'' @ CHR 0x1B # ''[0m'',
          two_lines\<lparr>message := Some (''first'' @ [CHR 0x0A] @ ''second''),
                     asctime := Some ''2021-08-29 17:05:32,000''\<rparr>) \<and>
   CHR 0x0A \<in> set (CHR 0x1B # ''[92m[2021-08-29 17:05:32,000] | /app/main.py:7 | INFO | first'' @
          [CHR 0x0A] @ ''second'' @ CHR 0x1B # ''[0m'')"
  by (simp add: format_simps two_lines_def hello_def day1_def render_simps)

text \<open>
  C6, amended. Take a record whose level name is one of the five severities and whose
  message merges with its arguments into the text \<open>m\<close>, as the message of a record
  without arguments always does, into itself. Then the formatter does not raise: the
  colour lookup succeeds and the result is the colour code, a text, and the reset code,
  where the text begins with \<open>[timestamp] | path:line | SEVERITY | m\<close>, with an empty
  message or a line number zero as with any other.

  For a record without exception information, exception text and stack information the
  text is exactly that, the record gets its \<open>message\<close> and \<open>asctime\<close> and is
  otherwise unchanged, and the result is a single line whenever the path and \<open>m\<close>
  contain no line break. For a record with exception information the traceback follows
  on lines of its own, and so does the stack information of a record that has it; the
  last two parts state this for a message that does not end in a line break.
\<close>

theorem Formatter_format_line:
  assumes "levelname record \<in> set (map getLevelName severities)"
    and "getMessage record = Inr m"
  shows "\<exists>color text record'.
           LogLevelColors_getitem (levelname record) = Inr color \<and>
           Formatter_format record = Inr (color @ text @ ENDC, record') \<and>
           prefix (''['' @ formatTime (created record) @ ''] | '' @ pathname record @
                   '':'' @ show_nat (lineno record) @ '' | '' @ levelname record @ '' | '' @ m) text \<and>
           (exc_info record = None \<and> \<not> truthy (exc_text record) \<and>
            \<not> truthy (stack_info record) \<longrightarrow>
              text = ''['' @ formatTime (created record) @ ''] | '' @ pathname record @
                     '':'' @ show_nat (lineno record) @ '' | '' @ levelname record @ '' | '' @ m \<and>
              record' = record\<lparr>message := Some m,
                               asctime := Some (formatTime (created record))\<rparr> \<and>
              (CHR 0x0A \<notin> set (pathname record) \<and> CHR 0x0A \<notin> set m \<longrightarrow>
                 CHR 0x0A \<notin> set (color @ text @ ENDC))) \<and>
           (exc_info record = Some printed \<and> \<not> truthy (exc_text record) \<and>
            \<not> truthy (stack_info record) \<and> formatException printed \<noteq> [] \<and>
            (m = [] \<or> last m \<noteq> CHR 0x0A) \<longrightarrow>
              text = (''['' @ formatTime (created record) @ ''] | '' @ pathname record @
                      '':'' @ show_nat (lineno record) @ '' | '' @ levelname record @ '' | '' @ m) @
                     [CHR 0x0A] @ formatException printed) \<and>
           (exc_info record = None \<and> \<not> truthy (exc_text record) \<and>
            stack_info record = Some stack \<and> stack \<noteq> [] \<and>
            (m = [] \<or> last m \<noteq> CHR 0x0A) \<longrightarrow>
              text = (''['' @ formatTime (created record) @ ''] | '' @ pathname record @
                      '':'' @ show_nat (lineno record) @ '' | '' @ levelname record @ '' | '' @ m) @
                     [CHR 0x0A] @ stack)"
proof -
  define s where
    "s = ''['' @ formatTime (created record) @ ''] | '' @ pathname record @
         '':'' @ show_nat (lineno record) @ '' | '' @ levelname record @ '' | '' @ m"
  from color_lookup [OF assms(1)] obtain color
    where c: "LogLevelColors_getitem (levelname record) = Inr color"
      and n: "CHR 0x0A \<notin> set color" "CHR 0x0A \<notin> set (levelname record)"
    by blast
  from logging_Formatter_format_Inr [OF assms(2)] obtain body record'
    where f: "logging_Formatter_format True Formatter_formatMessage record = Inr (body, record')"
      and p: "prefix s body"
    unfolding s_def by blast
  note r = Formatter_format_Inr [OF c f]
  have e: "CHR 0x0A \<notin> set ENDC" by (simp add: ENDC_def)
  have plain: "body = s \<and>
      record' = record\<lparr>message := Some m, asctime := Some (formatTime (created record))\<rparr> \<and>
      (CHR 0x0A \<notin> set (pathname record) \<and> CHR 0x0A \<notin> set m \<longrightarrow>
         CHR 0x0A \<notin> set (color @ body @ ENDC))"
    if h: "exc_info record = None" "\<not> truthy (exc_text record)"
      "\<not> truthy (stack_info record)"
  proof -
    from logging_Formatter_format_plain [OF assms(2) h] f
    have t: "body = s"
      and r': "record' = record\<lparr>message := Some m,
                                 asctime := Some (formatTime (created record))\<rparr>"
      by (simp_all add: s_def)
    have "CHR 0x0A \<notin> set (pathname record) \<and> CHR 0x0A \<notin> set m \<longrightarrow>
          CHR 0x0A \<notin> set (color @ s @ ENDC)"
      using n e newline_notin_formatTime [of "created record"]
        newline_notin_show_nat [of "lineno record"]
      by (simp add: s_def)
    with t r' show ?thesis by simp
  qed
  have exc: "body = s @ [CHR 0x0A] @ formatException printed"
    if h: "exc_info record = Some printed" "\<not> truthy (exc_text record)"
      "\<not> truthy (stack_info record)" "formatException printed \<noteq> []"
      "m = [] \<or> last m \<noteq> CHR 0x0A"
    using logging_Formatter_format_exception [OF assms(2) h] f by (auto simp: s_def)
  have stk: "body = s @ [CHR 0x0A] @ stack"
    if h: "exc_info record = None" "\<not> truthy (exc_text record)"
      "stack_info record = Some stack" "stack \<noteq> []"
      "m = [] \<or> last m \<noteq> CHR 0x0A"
    using logging_Formatter_format_stack [OF assms(2) h] f by (auto simp: s_def)
  from c r p plain exc stk show ?thesis
    unfolding s_def
    by - (rule exI [of _ color], rule exI [of _ body], rule exI [of _ "record'"],
        simp add: newline_notin_formatTime newline_notin_show_nat n)
qed

theorem Formatter_format_line_witness:
  "levelname hello \<in> set (map getLevelName severities) \<and>
   getMessage hello = Inr ''Hello, world!'' \<and>
   Formatter_format hello =
     Inr (CHR 0x1B # ''[92m[2021-08-29 17:05:32,000] | /app/main.py:7 | INFO | Hello, world!'' @
          CHR 0x1B # ''[0m'',
          hello\<lparr>message := Some ''Hello, world!'',
                 asctime := Some ''2021-08-29 17:05:32,000''\<rparr>) \<and>
   map_option fst (outcome (Formatter_format failed)) =
     Some (CHR 0x1B # ''[33m[2021-08-29 17:05:32,000] | /app/main.py:7 | ERROR | boom'' @
           [CHR 0x0A] @ ''ValueError: bad'' @ CHR 0x1B # ''[0m'') \<and>
   map_option fst (outcome (Formatter_format traced)) =
     Some (CHR 0x1B # ''[92m[2021-08-29 17:05:32,000] | /app/main.py:7 | INFO | Hello, world!'' @
           [CHR 0x0A] @ stack_text @ CHR 0x1B # ''[0m'')"
proof -
  have h: "levelname hello \<in> set (map getLevelName severities)"
    by (simp add: severity_names hello_def)
  have g: "getMessage hello = Inr ''Hello, world!''"
    by (simp add: getMessage_def hello_def)
  from Formatter_format_line [OF h g] obtain color body record'
    where c: "LogLevelColors_getitem (levelname hello) = Inr color"
      and f: "Formatter_format hello = Inr (color @ body @ ENDC, record')"
      and t: "exc_info hello = None \<and> \<not> truthy (exc_text hello) \<and>
              \<not> truthy (stack_info hello) \<longrightarrow>
              body = ''['' @ formatTime (created hello) @ ''] | '' @ pathname hello @
                     '':'' @ show_nat (lineno hello) @ '' | '' @ levelname hello @ '' | '' @
                     ''Hello, world!'' \<and>
              record' = hello\<lparr>message := Some ''Hello, world!'',
                              asctime := Some (formatTime (created hello))\<rparr> \<and>
              (CHR 0x0A \<notin> set (pathname hello) \<and> CHR 0x0A \<notin> set ''Hello, world!'' \<longrightarrow>
                 CHR 0x0A \<notin> set (color @ body @ ENDC))"
    by blast
  from c have c': "color = CHR 0x1B # ''[92m''"
    by (simp add: LogLevelColors_getitem_def LogLevelColors_def hello_def)
  have "exc_info hello = None \<and> \<not> truthy (exc_text hello) \<and> \<not> truthy (stack_info hello)"
    by (simp add: hello_def truthy_def)
  with t have t': "body = ''['' @ formatTime (created hello) @ ''] | '' @ pathname hello @
                     '':'' @ show_nat (lineno hello) @ '' | '' @ levelname hello @ '' | '' @ ''Hello, world!''"
    and r': "record' = hello\<lparr>message := Some ''Hello, world!'',
                              asctime := Some (formatTime (created hello))\<rparr>"
    by simp_all
  have x: "Formatter_format hello =
     Inr (CHR 0x1B # ''[92m[2021-08-29 17:05:32,000] | /app/main.py:7 | INFO | Hello, world!'' @
          CHR 0x1B # ''[0m'',
          hello\<lparr>message := Some ''Hello, world!'',
                 asctime := Some ''2021-08-29 17:05:32,000''\<rparr>)"
    unfolding f c' t' r' by (simp add: hello_def day1_def ENDC_def render_simps)
  have hf: "levelname failed \<in> set (map getLevelName severities)"
    by (simp add: severity_names failed_def)
  have gf: "getMessage failed = Inr ''boom''"
    by (simp add: getMessage_def failed_def hello_def)
  from Formatter_format_line [OF hf gf, where printed =
      "''ValueError: bad'' @ [CHR 0x0A]"]
  obtain color2 text2 record2
    where c2: "LogLevelColors_getitem (levelname failed) = Inr color2"
      and f2: "Formatter_format failed = Inr (color2 @ text2 @ ENDC, record2)"
      and t2: "text2 = (''['' @ formatTime (created failed) @ ''] | '' @ pathname failed @
                  '':'' @ show_nat (lineno failed) @ '' | '' @ levelname failed @ '' | '' @ ''boom'') @
                 [CHR 0x0A] @
                 formatException (''ValueError: bad'' @ [CHR 0x0A])"
    by (auto simp: failed_def hello_def truthy_def formatException_def)
  from c2 have c2': "color2 = CHR 0x1B # ''[33m''"
    by (simp add: LogLevelColors_getitem_def LogLevelColors_def failed_def)
  have y: "map_option fst (outcome (Formatter_format failed)) =
     Some (CHR 0x1B # ''[33m[2021-08-29 17:05:32,000] | /app/main.py:7 | ERROR | boom'' @
           [CHR 0x0A] @ ''ValueError: bad'' @ CHR 0x1B # ''[0m'')"
    unfolding f2 c2' t2
    by (simp add: outcome_def failed_def hello_def day1_def ENDC_def formatException_def
        render_simps)
  have ht: "levelname traced \<in> set (map getLevelName severities)"
    by (simp add: severity_names traced_def hello_def)
  have gt: "getMessage traced = Inr ''Hello, world!''"
    by (simp add: getMessage_def traced_def hello_def)
  from Formatter_format_line [OF ht gt, where stack = stack_text]
  obtain color3 text3 record3
    where c3: "LogLevelColors_getitem (levelname traced) = Inr color3"
      and f3: "Formatter_format traced = Inr (color3 @ text3 @ ENDC, record3)"
      and t3: "text3 = (''['' @ formatTime (created traced) @ ''] | '' @ pathname traced @
                  '':'' @ show_nat (lineno traced) @ '' | '' @ levelname traced @ '' | '' @ ''Hello, world!'') @
                 [CHR 0x0A] @ stack_text"
    by (auto simp: traced_def hello_def truthy_def stack_text_def)
  from c3 have c3': "color3 = CHR 0x1B # ''[92m''"
    by (simp add: LogLevelColors_getitem_def LogLevelColors_def traced_def hello_def)
  have z: "map_option fst (outcome (Formatter_format traced)) =
     Some (CHR 0x1B # ''[92m[2021-08-29 17:05:32,000] | /app/main.py:7 | INFO | Hello, world!'' @
           [CHR 0x0A] @ stack_text @ CHR 0x1B # ''[0m'')"
    unfolding f3 c3' t3
    by (simp add: outcome_def traced_def hello_def day1_def ENDC_def render_simps)
  from h g x y z show ?thesis by simp
qed

section \<open>Claims about the file handler\<close>

lemma Handler_format_formatter:
  "formatter h' = formatter h \<Longrightarrow> Handler_format h' record = Handler_format h record"
  by (simp add: Handler_format_def)

lemma get_last_entry_ticks:
  "get_last_entry (w\<lparr>ticks := n\<rparr>) h = get_last_entry w h"
  by (simp add: get_last_entry_def split: option.splits)

lemma StreamHandler_emit_file:
  assumes "Handler_format h record = Inr (line, record')" and "key \<in> set (opened w)"
  shows "StreamHandler_emit w (File key) h record =
           (w\<lparr>files := (files w)(key \<mapsto>
                  (case files w key of None \<Rightarrow> line @ [CHR 0x0A]
                   | Some content \<Rightarrow> content @ line @ [CHR 0x0A])),
              trace := trace w @ [Write (File key) (line @ [CHR 0x0A]), Flush (File key)]\<rparr>,
            record')"
  using assms by (simp add: StreamHandler_emit_def fs_write_def fs_flush_def)


lemma FileHandler_emit_same_day:
  assumes "stream h = Some key" and "key \<in> set (opened w)"
    and "Handler_format h record = Inr (line, record')"
    and "date (get_last_entry w h) = date (clock w (ticks w))"
  shows "FileHandler_emit w h record =
           Inr (w\<lparr>ticks := Suc (ticks w),
                  files := (files w)(key \<mapsto>
                    (case files w key of None \<Rightarrow> line @ [CHR 0x0A]
                     | Some content \<Rightarrow> content @ line @ [CHR 0x0A])),
                  trace := trace w @ [Write (File key) (line @ [CHR 0x0A]), Flush (File key)]\<rparr>,
                h, record')"
proof -
  have "StreamHandler_emit (w\<lparr>ticks := Suc (ticks w)\<rparr>) (File key) h record =
          ((w\<lparr>ticks := Suc (ticks w)\<rparr>)\<lparr>files := (files w)(key \<mapsto>
                  (case files w key of None \<Rightarrow> line @ [CHR 0x0A]
                   | Some content \<Rightarrow> content @ line @ [CHR 0x0A])),
              trace := trace w @ [Write (File key) (line @ [CHR 0x0A]), Flush (File key)]\<rparr>,
            record')"
    using StreamHandler_emit_file [of h "record" line record' key "w\<lparr>ticks := Suc (ticks
        w)\<rparr>"] assms
    by simp
  with assms show ?thesis
    by (simp add: FileHandler_emit_def today_def get_last_entry_ticks logging_FileHandler_emit_def)
qed

lemma FileHandler_emit_rotate:
  assumes "stream h = Some key" and "key \<in> set (opened w)"
    and "Handler_format h record = Inr (line, record')"
    and "date (get_last_entry w h) \<noteq> date (clock w (ticks w))"
    and "mode h = ModeA"
    and "\<not> denied w (abspath (getcwd w)
           (joinpath (folder h) (log_filename (clock w (Suc (ticks w))) (ext h))))"
  shows "FileHandler_emit w h record =
           Inr (w\<lparr>ticks := Suc (Suc (ticks w)),
                  files := (files w)
                    (abspath (getcwd w)
                       (joinpath (folder h) (log_filename (clock w (Suc (ticks w))) (ext h))) \<mapsto>
                     (case files w (abspath (getcwd w)
                        (joinpath (folder h) (log_filename (clock w (Suc (ticks w))) (ext h)))) of
                        None \<Rightarrow> [] | Some content \<Rightarrow> content) @ line @ [CHR 0x0A]),
                  opened := remove1 key (opened w) @
                    [abspath (getcwd w)
                       (joinpath (folder h) (log_filename (clock w (Suc (ticks w))) (ext h)))],
                  trace := trace w @
                    [SetLastEntry (clock w (Suc (ticks w))), Flush (File key), Close key,
                     Open (abspath (getcwd w)
                       (joinpath (folder h) (log_filename (clock w (Suc (ticks w))) (ext h))))
                       ModeA,
                     Write (File (abspath (getcwd w)
                       (joinpath (folder h) (log_filename (clock w (Suc (ticks w))) (ext h)))))
                       (line @ [CHR 0x0A]),
                     Flush (File (abspath (getcwd w)
                       (joinpath (folder h) (log_filename (clock w (Suc (ticks w))) (ext h)))))]\<rparr>,
                h\<lparr>baseFilename :=
                     joinpath (folder h) (log_filename (clock w (Suc (ticks w))) (ext h)),
                   stream := Some (abspath (getcwd w)
                     (joinpath (folder h) (log_filename (clock w (Suc (ticks w))) (ext h)))),
                   closed_flag := True,
                   last_entry := Some (clock w (Suc (ticks w)))\<rparr>,
                record')"
proof -
  have fmt: "\<And>h'. formatter h' = formatter h \<Longrightarrow> Handler_format h' record = Inr
      (line, record')"
    using assms(3) by (simp add: Handler_format_def)
  show ?thesis
    using assms(1,2,4,5,6)
    by (simp add: FileHandler_emit_def today_def get_last_entry_ticks logging_FileHandler_emit_def
        logging_FileHandler_close_def FileHandler_open_def fs_open_def fs_close_def fs_flush_def
        StreamHandler_emit_def fs_write_def fmt Let_def)
qed

lemma path_day1:
  "abspath ''/app'' (joinpath ''logs'' (log_filename day1 ''application'')) =
      ''/app/logs/2021-08-29-application.log''"
  by (simp add: abspath_def joinpath_def log_filename_def day1_def render_simps)

lemma path_day2:
  "abspath ''/app'' (joinpath ''logs'' (log_filename day2 ''application'')) =
      ''/app/logs/2021-08-30-application.log''"
  by (simp add: abspath_def joinpath_def log_filename_def day2_def render_simps)

lemma hello_line:
  "Handler_format (sink_on t) hello =
     Inr (CHR 0x1B # ''[92m[2021-08-29 17:05:32,000] | /app/main.py:7 | INFO | Hello, world!'' @ CHR
         0x1B # ''[0m'', hello\<lparr>message := Some ''Hello, world!'',
                 asctime := Some ''2021-08-29 17:05:32,000''\<rparr>)"
  by (simp add: Handler_format_def sink_on_def format_simps hello_def day1_def render_simps)

lemma days_differ: "date day1 \<noteq> date day2" "date day2 \<noteq> date day1"
  by (simp_all add: date_def day1_def day2_def)

text \<open>
  C1, amended. When a write request reaches a file handler in the state \<open>Open\<close> and
  the first reading of the clock falls on another date than the recorded one, the
  handler performs, in this order: it assigns the recorded timestamp from a second
  reading of the clock, flushes and closes the current handle, opens the file named after
  the new timestamp in append mode, and writes the line to the handle just opened. Between
  any two of these effects no more file handles are open than before the request, so the
  handler never holds two.
\<close>

theorem FileHandler_emit_rotation_order:
  assumes "stream h = Some key" and "key \<in> set (opened w)" and "mode h = ModeA"
    and "Handler_format h record = Inr (line, record')"
    and "date (get_last_entry w h) \<noteq> date (clock w (ticks w))"
    and "\<not> denied w
           (abspath (getcwd w)
             (joinpath (folder h) (log_filename (clock w (Suc (ticks w))) (ext h))))"
  shows "\<exists>w' h'.
           FileHandler_emit w h record = Inr (w', h', record') \<and>
           new_events w w' =
             [SetLastEntry (clock w (Suc (ticks w))),
              Flush (File key),
              Close key,
              Open (abspath (getcwd w)
                (joinpath (folder h) (log_filename (clock w (Suc (ticks w))) (ext h)))) ModeA,
              Write (File (abspath (getcwd w)
                (joinpath (folder h) (log_filename (clock w (Suc (ticks w))) (ext h)))))
                (line @ [CHR 0x0A]),
              Flush (File (abspath (getcwd w)
                (joinpath (folder h) (log_filename (clock w (Suc (ticks w))) (ext h)))))] \<and>
           (\<forall>hs \<in> set (handles_during (opened w) (new_events w w')).
              length hs \<le> length (opened w)) \<and>
           last (handles_during (opened w) (new_events w w')) = opened w' \<and>
           stream h' =
             Some (abspath (getcwd w)
               (joinpath (folder h) (log_filename (clock w (Suc (ticks w))) (ext h)))) \<and>
           get_last_entry w' h' = clock w (Suc (ticks w))"
proof -
  from assms(2) have pos: "0 < length (opened w)" by (cases "opened w") auto
  from assms(2) have len: "length (remove1 key (opened w)) = length (opened w) - 1"
    by (simp add: length_remove1)
  note r = FileHandler_emit_rotate [OF assms(1,2,4,5,3,6)]
  show ?thesis
    unfolding r using pos len
    by (simp add: new_events_def get_last_entry_def)
qed

theorem FileHandler_emit_rotation_order_witness:
  "\<exists>w' h' r'.
     FileHandler_emit (running clock_day2 day1) (sink_on day1) hello = Inr (w', h', r') \<and>
     new_events (running clock_day2 day1) w' =
       [SetLastEntry day2, Flush (File ''/app/logs/2021-08-29-application.log''), Close
           ''/app/logs/2021-08-29-application.log'', Open ''/app/logs/2021-08-30-application.log''
           ModeA,
        Write (File ''/app/logs/2021-08-30-application.log'') (CHR 0x1B # ''[92m[2021-08-29 17:05:32,000] | /app/main.py:7 | INFO | Hello, world!''
            @ CHR 0x1B # ''[0m'' @ [CHR 0x0A]), Flush (File
            ''/app/logs/2021-08-30-application.log'')] \<and>
     (\<forall>hs \<in> set (handles_during [''/app/logs/2021-08-29-application.log''] (new_events
         (running clock_day2 day1) w')).
        length hs \<le> 1) \<and>
     opened w' = [''/app/logs/2021-08-30-application.log'']"
proof -
  have 1: "stream (sink_on day1) = Some ''/app/logs/2021-08-29-application.log''" by (simp add:
      sink_on_def path_day1)
  have 2: "''/app/logs/2021-08-29-application.log'' \<in> set (opened (running clock_day2 day1))" by
      (simp add: running_def path_day1)
  have 3: "mode (sink_on day1) = ModeA" by (simp add: sink_on_def)
  have 5: "date (get_last_entry (running clock_day2 day1) (sink_on day1)) \<noteq>
           date (clock (running clock_day2 day1) (ticks (running clock_day2 day1)))"
    by (simp add: get_last_entry_def sink_on_def running_def clock_day2_def days_differ)
  have 6: "\<not> denied (running clock_day2 day1)
             (abspath (getcwd (running clock_day2 day1))
               (joinpath (folder (sink_on day1))
                 (log_filename (clock (running clock_day2 day1)
                    (Suc (ticks (running clock_day2 day1)))) (ext (sink_on day1)))))"
    by (simp add: running_def permissive_def)
  have k: "abspath (getcwd (running clock_day2 day1))
               (joinpath (folder (sink_on day1)) (log_filename day2 (ext (sink_on day1)))) =
                   ''/app/logs/2021-08-30-application.log''"
    using path_day2 by (simp add: running_def sink_on_def)
  have o: "opened (running clock_day2 day1) = [''/app/logs/2021-08-29-application.log'']" by (simp
      add: running_def path_day1)
  have c: "clock (running clock_day2 day1) (Suc (ticks (running clock_day2 day1))) = day2"
    by (simp add: running_def clock_day2_def)
  from FileHandler_emit_rotation_order [OF 1 2 3 hello_line 5 6]
  show ?thesis unfolding c k o by auto
qed

text \<open>
  C1, as the spec states it, gives another order: close, open, update the recorded date,
  append. The handler updates the recorded date first, because the new file name is
  built from it. A handler that recorded 29 August and is asked to write on 30 August:
\<close>

theorem FileHandler_emit_order_counterexample:
  "map_option (new_events (running clock_day2 day1) \<circ> fst)
     (outcome (FileHandler_emit (running clock_day2 day1) (sink_on day1) hello)) =
     Some [SetLastEntry day2, Flush (File ''/app/logs/2021-08-29-application.log''), Close
         ''/app/logs/2021-08-29-application.log'', Open ''/app/logs/2021-08-30-application.log''
         ModeA,
           Write (File ''/app/logs/2021-08-30-application.log'') (CHR 0x1B # ''[92m[2021-08-29 17:05:32,000] | /app/main.py:7 | INFO | Hello, world!''
               @ CHR 0x1B # ''[0m'' @ [CHR 0x0A]), Flush (File
               ''/app/logs/2021-08-30-application.log'')] \<and>
   map_option (new_events (running clock_day2 day1) \<circ> fst)
     (outcome (FileHandler_emit (running clock_day2 day1) (sink_on day1) hello)) \<noteq>
     Some [Flush (File ''/app/logs/2021-08-29-application.log''), Close
         ''/app/logs/2021-08-29-application.log'', Open ''/app/logs/2021-08-30-application.log''
         ModeA, SetLastEntry day2,
           Write (File ''/app/logs/2021-08-30-application.log'') (CHR 0x1B # ''[92m[2021-08-29 17:05:32,000] | /app/main.py:7 | INFO | Hello, world!''
               @ CHR 0x1B # ''[0m'' @ [CHR 0x0A]), Flush (File
               ''/app/logs/2021-08-30-application.log'')]"
proof -
  have 1: "stream (sink_on day1) = Some ''/app/logs/2021-08-29-application.log''" by (simp add:
      sink_on_def path_day1)
  have 2: "''/app/logs/2021-08-29-application.log'' \<in> set (opened (running clock_day2 day1))" by
      (simp add: running_def path_day1)
  have 3: "mode (sink_on day1) = ModeA" by (simp add: sink_on_def)
  have 5: "date (get_last_entry (running clock_day2 day1) (sink_on day1)) \<noteq>
           date (clock (running clock_day2 day1) (ticks (running clock_day2 day1)))"
    by (simp add: get_last_entry_def sink_on_def running_def clock_day2_def days_differ)
  have 6: "\<not> denied (running clock_day2 day1)
             (abspath (getcwd (running clock_day2 day1))
               (joinpath (folder (sink_on day1))
                 (log_filename (clock (running clock_day2 day1)
                    (Suc (ticks (running clock_day2 day1)))) (ext (sink_on day1)))))"
    by (simp add: running_def permissive_def)
  have k: "abspath (getcwd (running clock_day2 day1))
               (joinpath (folder (sink_on day1)) (log_filename day2 (ext (sink_on day1)))) =
                   ''/app/logs/2021-08-30-application.log''"
    using path_day2 by (simp add: running_def sink_on_def)
  have c: "clock (running clock_day2 day1) (Suc (ticks (running clock_day2 day1))) = day2"
    by (simp add: running_def clock_day2_def)
  note r = FileHandler_emit_rotate [OF 1 2 hello_line 5 3 6]
  show ?thesis
    unfolding r c k by (simp add: outcome_def new_events_def)
qed

text \<open>
  C2. A write request to a file handler in the state \<open>Open\<close> returns normally, and it
  rotates (closes the current handle) if and only if the date of the clock differs from
  the recorded date. When the dates are equal the handler is unchanged, no handle is
  opened or closed, and the line is appended to the current file. When they differ, in
  whichever direction, the handler moves to the file named after the new timestamp and
  appends the line there; the only comparison made is for inequality. The operating
  system is assumed not to refuse the file of the new date.
\<close>

theorem FileHandler_emit_rotates_iff_date_differs:
  assumes "stream h = Some key" and "key \<in> set (opened w)" and "mode h = ModeA"
    and "Handler_format h record = Inr (line, record')"
    and "\<not> denied w (abspath (getcwd w) (joinpath (folder h) (log_filename (clock w (Suc (ticks
        w))) (ext h))))"
  shows "\<exists>w' h'.
           FileHandler_emit w h record = Inr (w', h', record') \<and>
           (Close key \<in> set (new_events w w') \<longleftrightarrow>
              date (get_last_entry w h) \<noteq> date (clock w (ticks w))) \<and>
           (date (get_last_entry w h) = date (clock w (ticks w)) \<longrightarrow>
              h' = h \<and> opened w' = opened w \<and>
              new_events w w' = [Write (File key) (line @ [CHR 0x0A]), Flush (File key)] \<and>
              files w' key =
                Some ((case files w key of None \<Rightarrow> [] | Some content \<Rightarrow>
                    content) @ line @ [CHR 0x0A])) \<and>
           (date (get_last_entry w h) \<noteq> date (clock w (ticks w)) \<longrightarrow>
              stream h' = Some (abspath (getcwd w) (joinpath (folder h) (log_filename (clock w (Suc
                  (ticks w))) (ext h)))) \<and>
              baseFilename h' = joinpath (folder h) (log_filename (clock w (Suc (ticks w))) (ext h)) \<and>
              last_entry h' = Some (clock w (Suc (ticks w))) \<and>
              Open (abspath (getcwd w) (joinpath (folder h) (log_filename (clock w (Suc (ticks w)))
                  (ext h)))) ModeA \<in> set (new_events w w') \<and>
              files w' (abspath (getcwd w) (joinpath (folder h) (log_filename (clock w (Suc (ticks
                  w))) (ext h)))) =
                Some ((case files w (abspath (getcwd w) (joinpath (folder h) (log_filename (clock w
                    (Suc (ticks w))) (ext h)))) of None \<Rightarrow> [] | Some content
                    \<Rightarrow> content) @
                      line @ [CHR 0x0A]))"
proof (cases "date (get_last_entry w h) = date (clock w (ticks w))")
  case True
  note r = FileHandler_emit_same_day [OF assms(1,2,4) True]
  show ?thesis
    unfolding r using True by (simp add: new_events_def split: option.splits)
next
  case False
  note r = FileHandler_emit_rotate [OF assms(1,2,4) False assms(3,5)]
  show ?thesis
    unfolding r using False by (simp add: new_events_def)
qed

theorem FileHandler_emit_rotates_iff_date_differs_witness:
  "(\<exists>w' h' r'.
      FileHandler_emit (running clock_day1 day2) (sink_on day2) hello = Inr (w', h', r') \<and>
      Close ''/app/logs/2021-08-30-application.log'' \<in> set (new_events (running clock_day1 day2)
          w') \<and>
      stream h' = Some ''/app/logs/2021-08-29-application.log'' \<and> last_entry h' = Some day1) \<and>
   (\<exists>w' r'.
      FileHandler_emit (running clock_day1 day1) (sink_on day1) hello =
        Inr (w', sink_on day1, r') \<and>
      new_events (running clock_day1 day1) w' = [Write (File
          ''/app/logs/2021-08-29-application.log'') (CHR 0x1B # ''[92m[2021-08-29 17:05:32,000] | /app/main.py:7 | INFO | Hello, world!''
          @ CHR 0x1B # ''[0m'' @ [CHR 0x0A]), Flush (File ''/app/logs/2021-08-29-application.log'')]
          \<and>
      files w' ''/app/logs/2021-08-29-application.log'' = Some (CHR 0x1B # ''[92m[2021-08-29 17:05:32,000] | /app/main.py:7 | INFO | Hello, world!''
          @ CHR 0x1B # ''[0m'' @ [CHR 0x0A]))"
proof -
  have rot: "\<exists>w' h' r'.
      FileHandler_emit (running clock_day1 day2) (sink_on day2) hello = Inr (w', h', r') \<and>
      Close ''/app/logs/2021-08-30-application.log'' \<in> set (new_events (running clock_day1 day2)
          w') \<and>
      stream h' = Some ''/app/logs/2021-08-29-application.log'' \<and> last_entry h' = Some day1"
  proof -
    have 1: "stream (sink_on day2) = Some ''/app/logs/2021-08-30-application.log''" by (simp add:
        sink_on_def path_day2)
    have 2: "''/app/logs/2021-08-30-application.log'' \<in> set (opened (running clock_day1 day2))"
        by (simp add: running_def path_day2)
    have 3: "mode (sink_on day2) = ModeA" by (simp add: sink_on_def)
    have 5: "\<not> denied (running clock_day1 day2)
               (abspath (getcwd (running clock_day1 day2))
                 (joinpath (folder (sink_on day2))
                   (log_filename (clock (running clock_day1 day2)
                      (Suc (ticks (running clock_day1 day2)))) (ext (sink_on day2)))))"
      by (simp add: running_def permissive_def)
    have d: "date (get_last_entry (running clock_day1 day2) (sink_on day2)) \<noteq>
             date (clock (running clock_day1 day2) (ticks (running clock_day1 day2)))"
      by (simp add: get_last_entry_def sink_on_def running_def clock_day1_def days_differ)
    have c: "clock (running clock_day1 day2) (Suc (ticks (running clock_day1 day2))) = day1"
      by (simp add: running_def clock_day1_def)
    have k: "abspath (getcwd (running clock_day1 day2))
               (joinpath (folder (sink_on day2)) (log_filename day1 (ext (sink_on day2)))) =
                   ''/app/logs/2021-08-29-application.log''"
      using path_day1 by (simp add: running_def sink_on_def)
    from FileHandler_emit_rotates_iff_date_differs [OF 1 2 3 hello_line 5] d
    show ?thesis unfolding c k by auto
  qed
  have stay: "\<exists>w' r'.
      FileHandler_emit (running clock_day1 day1) (sink_on day1) hello =
        Inr (w', sink_on day1, r') \<and>
      new_events (running clock_day1 day1) w' = [Write (File
          ''/app/logs/2021-08-29-application.log'') (CHR 0x1B # ''[92m[2021-08-29 17:05:32,000] | /app/main.py:7 | INFO | Hello, world!''
          @ CHR 0x1B # ''[0m'' @ [CHR 0x0A]), Flush (File ''/app/logs/2021-08-29-application.log'')]
          \<and>
      files w' ''/app/logs/2021-08-29-application.log'' = Some (CHR 0x1B # ''[92m[2021-08-29 17:05:32,000] | /app/main.py:7 | INFO | Hello, world!''
          @ CHR 0x1B # ''[0m'' @ [CHR 0x0A])"
  proof -
    have 1: "stream (sink_on day1) = Some ''/app/logs/2021-08-29-application.log''" by (simp add:
        sink_on_def path_day1)
    have 2: "''/app/logs/2021-08-29-application.log'' \<in> set (opened (running clock_day1 day1))"
        by (simp add: running_def path_day1)
    have 3: "mode (sink_on day1) = ModeA" by (simp add: sink_on_def)
    have 5: "\<not> denied (running clock_day1 day1)
               (abspath (getcwd (running clock_day1 day1))
                 (joinpath (folder (sink_on day1))
                   (log_filename (clock (running clock_day1 day1)
                      (Suc (ticks (running clock_day1 day1)))) (ext (sink_on day1)))))"
      by (simp add: running_def permissive_def)
    have d: "date (get_last_entry (running clock_day1 day1) (sink_on day1)) =
             date (clock (running clock_day1 day1) (ticks (running clock_day1 day1)))"
      by (simp add: get_last_entry_def sink_on_def running_def clock_day1_def)
    have f: "files (running clock_day1 day1) ''/app/logs/2021-08-29-application.log'' = Some []"
      by (simp add: running_def path_day1)
    from FileHandler_emit_rotates_iff_date_differs [OF 1 2 3 hello_line 5] d f
    show ?thesis by auto
  qed
  from rot stay show ?thesis by (rule conjI)
qed

subsection \<open>Construction\<close>

lemma abspath_abs: "prefix ''/'' cwd \<Longrightarrow> abspath cwd (abspath cwd p) = abspath cwd p"
  by (cases cwd) (auto simp: abspath_def)

lemma strftime_ymd_date: "date a = date b \<Longrightarrow> strftime_ymd a = strftime_ymd b"
  by (simp add: date_def strftime_ymd_def)

lemma FileHandler_init_ok:
  assumes "(abspath (getcwd w) dir) \<in> set (dirs w) \<or> \<not> denied w (abspath (getcwd w)
      dir) \<and> files w (abspath (getcwd w) dir) = None"
    and "prefix ''/'' (getcwd w)"
    and "\<not> denied w (abspath (getcwd w) (joinpath dir (log_filename (clock w (ticks w)) e)))"
  shows "FileHandler_init w e dir =
           Inr (w\<lparr>ticks := Suc (ticks w),
                  dirs := (if (abspath (getcwd w) dir) \<in> set (dirs w) then dirs w else dirs w @
                      [(abspath (getcwd w) dir)]),
                  files := (files w)((abspath (getcwd w) (joinpath dir (log_filename (clock w (ticks
                      w)) e))) \<mapsto>
                    (case files w (abspath (getcwd w) (joinpath dir (log_filename (clock w (ticks
                        w)) e))) of None \<Rightarrow> [] | Some content \<Rightarrow> content)),
                  opened := opened w @ [(abspath (getcwd w) (joinpath dir (log_filename (clock w
                      (ticks w)) e)))],
                  trace := trace w @ (if (abspath (getcwd w) dir) \<in> set (dirs w) then [] else
                      [Mkdir (abspath (getcwd w) dir)]) @
                           [Open (abspath (getcwd w) (joinpath dir (log_filename (clock w (ticks w))
                               e))) ModeA]\<rparr>,
                \<lparr>level = NOTSET, filters = [], formatter = Some Formatter, folder = dir,
                 ext = e, baseFilename = (abspath (getcwd w) (joinpath dir (log_filename (clock w
                     (ticks w)) e))), mode = ModeA, stream = Some (abspath (getcwd w) (joinpath dir
                     (log_filename (clock w (ticks w)) e))),
                 closed_flag = False, last_entry = None\<rparr>)"
  using assms
  by (auto simp: FileHandler_init_def fs_mkdir_def today_def FileHandler_open_def fs_open_def
      abspath_abs Let_def)

lemma FileHandler_init_Inr:
  assumes "FileHandler_init w e dir = Inr (w1, h)"
  shows "last_entry h = None" and "FileHandler_last_entry w1 = FileHandler_last_entry w"
    and "ext h = e" and "folder h = dir" and "mode h = ModeA" and "baseFilename h = (abspath (getcwd
        w) (joinpath dir (log_filename (clock w (ticks w)) e)))"
    and "stream h = Some (abspath (getcwd w) (abspath (getcwd w) (joinpath dir (log_filename (clock
        w (ticks w)) e))))"
    and "abspath (getcwd w) (abspath (getcwd w) (joinpath dir (log_filename (clock w (ticks w)) e)))
        \<in> set (opened w1)"
    and "formatter h = Some Formatter" and "filters h = []" and "level h = NOTSET"
    and "clock w1 = clock w" and "ticks w1 = Suc (ticks w)" and "getcwd w1 = getcwd w"
    and "denied w1 = denied w" and "manager_disable w1 = manager_disable w"
  using assms
  by (auto simp: FileHandler_init_def fs_mkdir_def today_def FileHandler_open_def fs_open_def
      Let_def split: if_splits sum.splits)

lemma started:
  "getcwd (FileHandler_class_body (boot clock_next_day)) = ''/app''" "dirs (FileHandler_class_body
      (boot clock_next_day)) = []" "denied (FileHandler_class_body (boot clock_next_day)) =
      permissive" "files (FileHandler_class_body (boot clock_next_day)) = nothing"
  "clock (FileHandler_class_body (boot clock_next_day)) = clock_next_day" "ticks
      (FileHandler_class_body (boot clock_next_day)) = Suc 0" "FileHandler_last_entry
      (FileHandler_class_body (boot clock_next_day)) = day1"
  by (simp_all add: FileHandler_class_body_def today_def boot_def clock_next_day_def)

lemma started_init:
  "\<exists>w1. FileHandler_init (FileHandler_class_body (boot clock_next_day)) ''application'' ''logs'' =
     Inr (w1, \<lparr>level = NOTSET, filters = [], formatter = Some Formatter, folder = ''logs'',
               ext = ''application'', baseFilename = ''/app/logs/2021-08-30-application.log'', mode
                   = ModeA, stream = Some ''/app/logs/2021-08-30-application.log'',
               closed_flag = False, last_entry = None\<rparr>) \<and>
     opened w1 = [''/app/logs/2021-08-30-application.log''] \<and> dirs w1 = [''/app/logs''] \<and>
         files w1 ''/app/logs/2021-08-30-application.log'' = Some [] \<and>
     new_events (FileHandler_class_body (boot clock_next_day)) w1 = [Mkdir ''/app/logs'', Open
         ''/app/logs/2021-08-30-application.log'' ModeA]"
proof -
  have p: "abspath (getcwd (FileHandler_class_body (boot clock_next_day)))
             (joinpath ''logs'' (log_filename (clock (FileHandler_class_body (boot clock_next_day))
                 (ticks (FileHandler_class_body (boot clock_next_day)))) ''application'')) =
                 ''/app/logs/2021-08-30-application.log''"
    using path_day2 by (simp add: started clock_next_day_def)
  have d: "abspath (getcwd (FileHandler_class_body (boot clock_next_day))) ''logs'' = ''/app/logs''"
    by (simp add: started abspath_def)
  have i: "FileHandler_init (FileHandler_class_body (boot clock_next_day)) ''application'' ''logs'' = Inr
     ((FileHandler_class_body (boot clock_next_day))\<lparr>ticks := Suc (ticks
         (FileHandler_class_body (boot clock_next_day))),
         dirs := (if ''/app/logs'' \<in> set (dirs (FileHandler_class_body (boot clock_next_day)))
             then dirs (FileHandler_class_body (boot clock_next_day)) else dirs
             (FileHandler_class_body (boot clock_next_day)) @ [''/app/logs'']),
         files := (files (FileHandler_class_body (boot
             clock_next_day)))(''/app/logs/2021-08-30-application.log'' \<mapsto>
            (case files (FileHandler_class_body (boot clock_next_day))
                ''/app/logs/2021-08-30-application.log'' of None \<Rightarrow> [] | Some content
                \<Rightarrow> content)),
         opened := opened (FileHandler_class_body (boot clock_next_day)) @
             [''/app/logs/2021-08-30-application.log''],
         trace := trace (FileHandler_class_body (boot clock_next_day)) @ (if ''/app/logs'' \<in> set
             (dirs (FileHandler_class_body (boot clock_next_day))) then [] else [Mkdir
             ''/app/logs'']) @
                  [Open ''/app/logs/2021-08-30-application.log'' ModeA]\<rparr>,
      \<lparr>level = NOTSET, filters = [], formatter = Some Formatter, folder = ''logs'',
       ext = ''application'', baseFilename = ''/app/logs/2021-08-30-application.log'', mode = ModeA,
           stream = Some ''/app/logs/2021-08-30-application.log'',
       closed_flag = False, last_entry = None\<rparr>)"
    using FileHandler_init_ok [where w = "(FileHandler_class_body (boot clock_next_day))" and dir =
        "''logs''" and e = "''application''"]
    unfolding p d by (simp add: started permissive_def nothing_def)
  show ?thesis
    unfolding i
    by (simp add: started nothing_def new_events_def FileHandler_class_body_def today_def boot_def)
qed

text \<open>
  C9. The timestamp that triggers rotation is a class attribute: the class body sets it
  from the clock when it runs, the constructor leaves the instance attribute unset, so
  every instance reads the class value, whatever its name and folder, and neither the
  constructor nor a write changes the class value; only a rotation gives an instance a
  timestamp of its own. Hence a handler constructed on a later day than the class body
  ran rotates at its first write: it closes the file it has just opened and, the day
  being the day of construction, opens the same file again.
\<close>

theorem FileHandler_last_entry_class_level:
  assumes init: "FileHandler_init w e dir = Inr (w1, h)"
    and cwd: "prefix ''/'' (getcwd w)"
    and w2: "getcwd w2 = getcwd w" "FileHandler_last_entry w2 = FileHandler_last_entry w"
    and op: "baseFilename h \<in> set (opened w2)"
    and ok: "\<not> denied w2 (baseFilename h)"
    and fmt: "Handler_format h record = Inr (line, record')"
    and later: "date (FileHandler_last_entry w) \<noteq> date (clock w2 (ticks w2))"
    and sameday: "date (clock w2 (Suc (ticks w2))) = date (clock w (ticks w))"
  shows "FileHandler_last_entry (FileHandler_class_body w0) = clock w0 (ticks w0) \<and>
         last_entry h = None \<and>
         get_last_entry w1 h = FileHandler_last_entry w \<and>
         get_last_entry w2 h = FileHandler_last_entry w \<and>
         (\<exists>w3 h'.
            FileHandler_emit w2 h record = Inr (w3, h', record') \<and>
            new_events w2 w3 =
              [SetLastEntry (clock w2 (Suc (ticks w2))),
               Flush (File (baseFilename h)),
               Close (baseFilename h),
               Open (baseFilename h) ModeA,
               Write (File (baseFilename h)) (line @ [CHR 0x0A]),
               Flush (File (baseFilename h))] \<and>
            last_entry h' = Some (clock w2 (Suc (ticks w2))) \<and>
            FileHandler_last_entry w3 = FileHandler_last_entry w)"
proof -
  note i = FileHandler_init_Inr [OF init]
  have b: "baseFilename h = (abspath (getcwd w) (joinpath dir (log_filename (clock w (ticks w))
      e)))" by (rule i(6))
  have s: "stream h = Some (baseFilename h)"
    using i(7) cwd by (simp add: b abspath_abs)
  have g1: "get_last_entry w1 h = FileHandler_last_entry w"
    using i(1,2) by (simp add: get_last_entry_def)
  have g2: "get_last_entry w2 h = FileHandler_last_entry w"
    using i(1) w2(2) by (simp add: get_last_entry_def)
  have n: "joinpath (folder h) (log_filename (clock w2 (Suc (ticks w2))) (ext h)) =
           joinpath dir (log_filename (clock w (ticks w)) e)"
    using i(3,4) strftime_ymd_date [OF sameday] by (simp add: log_filename_def)
  have k: "abspath (getcwd w2)
             (joinpath (folder h) (log_filename (clock w2 (Suc (ticks w2))) (ext h))) =
           baseFilename h"
    unfolding n w2(1) b ..
  have d: "date (get_last_entry w2 h) \<noteq> date (clock w2 (ticks w2))"
    using later by (simp add: g2)
  have ok': "\<not> denied w2 (abspath (getcwd w2)
               (joinpath (folder h) (log_filename (clock w2 (Suc (ticks w2))) (ext h))))"
    using ok by (simp add: k)
  note r = FileHandler_emit_rotate [OF s op fmt d i(5) ok']
  have c: "FileHandler_last_entry (FileHandler_class_body w0) = clock w0 (ticks w0)"
    by (simp add: FileHandler_class_body_def today_def)
  have x: "\<exists>w3 h'.
            FileHandler_emit w2 h record = Inr (w3, h', record') \<and>
            new_events w2 w3 = [SetLastEntry (clock w2 (Suc (ticks w2))), Flush (File (baseFilename
                h)), Close (baseFilename h), Open (baseFilename h) ModeA, Write (File (baseFilename
                h)) (line @ [CHR 0x0A]), Flush (File (baseFilename h))] \<and>
            last_entry h' = Some (clock w2 (Suc (ticks w2))) \<and>
            FileHandler_last_entry w3 = FileHandler_last_entry w"
    unfolding r k by (simp add: new_events_def w2(2))
  from c i(1) g1 g2 x show ?thesis by blast
qed

theorem FileHandler_last_entry_class_level_witness:
  "\<exists>w1 h w3 h' r'.
     FileHandler_init (FileHandler_class_body (boot clock_next_day)) ''application'' ''logs'' = Inr
         (w1, h) \<and>
     baseFilename h = ''/app/logs/2021-08-30-application.log'' \<and> get_last_entry w1 h = day1 \<and>
     FileHandler_emit w1 h hello = Inr (w3, h', r') \<and>
     new_events w1 w3 =
       [SetLastEntry day2, Flush (File ''/app/logs/2021-08-30-application.log''), Close
           ''/app/logs/2021-08-30-application.log'', Open ''/app/logs/2021-08-30-application.log''
           ModeA,
        Write (File ''/app/logs/2021-08-30-application.log'') ((CHR 0x1B # ''[92m[2021-08-29 17:05:32,000] | /app/main.py:7 | INFO | Hello, world!''
            @ CHR 0x1B # ''[0m'') @ [CHR 0x0A]), Flush (File
            ''/app/logs/2021-08-30-application.log'')]"
proof -
  from started_init obtain w1 h
    where init: "FileHandler_init (FileHandler_class_body (boot clock_next_day)) ''application''
        ''logs'' = Inr (w1, h)"
      and h: "h = \<lparr>level = NOTSET, filters = [], formatter = Some Formatter, folder = ''logs'',
               ext = ''application'', baseFilename = ''/app/logs/2021-08-30-application.log'', mode
                   = ModeA, stream = Some ''/app/logs/2021-08-30-application.log'',
               closed_flag = False, last_entry = None\<rparr>"
      and o: "opened w1 = [''/app/logs/2021-08-30-application.log'']"
    by blast
  note i = FileHandler_init_Inr [OF init]
  have b: "baseFilename h = ''/app/logs/2021-08-30-application.log''" by (simp add: h)
  have 1: "prefix ''/'' (getcwd (FileHandler_class_body (boot clock_next_day)))" by (simp add: started)
  have 4: "baseFilename h \<in> set (opened w1)" by (simp add: o b)
  have 5: "\<not> denied w1 (baseFilename h)" by (simp add: i(15) started permissive_def)
  have 6: "Handler_format h hello =
     Inr ((CHR 0x1B # ''[92m[2021-08-29 17:05:32,000] | /app/main.py:7 | INFO | Hello, world!'' @
         CHR 0x1B # ''[0m''), hello\<lparr>message := Some ''Hello, world!'',
                 asctime := Some ''2021-08-29 17:05:32,000''\<rparr>)"
    using hello_line [of day1] Handler_format_formatter [of h "sink_on day1" hello]
    by (simp add: h sink_on_def)
  have 7: "date (FileHandler_last_entry (FileHandler_class_body (boot clock_next_day))) \<noteq>
      date (clock w1 (ticks w1))"
    by (simp add: i(12,13) started clock_next_day_def days_differ)
  have 8: "date (clock w1 (Suc (ticks w1))) = date (clock (FileHandler_class_body (boot
      clock_next_day)) (ticks (FileHandler_class_body (boot clock_next_day))))"
    by (simp add: i(12,13) started clock_next_day_def)
  have c: "clock w1 (Suc (ticks w1)) = day2"
    by (simp add: i(12,13) started clock_next_day_def)
  note t = FileHandler_last_entry_class_level [OF init 1 i(14) i(2) 4 5 6 7 8,
      where ?w0.0 = "boot clock_next_day", unfolded c b]
  note g = t [THEN conjunct2, THEN conjunct2, THEN conjunct1]
  from t [THEN conjunct2, THEN conjunct2, THEN conjunct2, THEN conjunct2]
  obtain w3 h' where "FileHandler_emit w1 h hello =
              Inr (w3, h', hello\<lparr>message := Some ''Hello, world!'',
                 asctime := Some ''2021-08-29 17:05:32,000''\<rparr>)"
    and "new_events w1 w3 =
              [SetLastEntry day2, Flush (File ''/app/logs/2021-08-30-application.log''), Close
                  ''/app/logs/2021-08-30-application.log'', Open
                  ''/app/logs/2021-08-30-application.log'' ModeA,
               Write (File ''/app/logs/2021-08-30-application.log'') ((CHR 0x1B # ''[92m[2021-08-29 17:05:32,000] | /app/main.py:7 | INFO | Hello, world!''
                   @ CHR 0x1B # ''[0m'') @ [CHR 0x0A]), Flush (File
                   ''/app/logs/2021-08-30-application.log'')]"
    by (elim exE conjE)
  with init b g show ?thesis by (auto simp: started)
qed

subsection \<open>The constructor of the logger\<close>

lemma Logger_init_console_only:
  assumes "kw_other kw = []" and "kw_name kw = Some n" and "kw_file_logging kw \<noteq> Some True"
  shows "Logger_init w kw =
           Inr (w, \<lparr>logger_name = n, logger_level = (case kw_level kw of None \<Rightarrow>
               DEBUG | Some l \<Rightarrow> l), handlers = [HandlerRef],
                    handler = \<lparr>level = NOTSET, filters = [RelativePathFilter], formatter =
                        Some Formatter\<rparr>, file_handler = None\<rparr>)"
  using assms by (cases "kw_file_logging kw") (auto simp: Logger_init_def Let_def)

lemma Logger_init_with_file:
  assumes "kw_other kw = []" and "kw_name kw = Some n" and "kw_file_logging kw = Some True"
    and "FileHandler_init w n ''logs'' = Inr (w1, fh)"
  shows "Logger_init w kw =
           Inr (w1, \<lparr>logger_name = n, logger_level = (case kw_level kw of None \<Rightarrow>
               DEBUG | Some l \<Rightarrow> l),
                     handlers = [HandlerRef, FileHandlerRef], handler = \<lparr>level = NOTSET,
                         filters = [RelativePathFilter], formatter = Some Formatter\<rparr>,
                     file_handler = Some (fh\<lparr>filters := filters fh @
                         [RelativePathFilter]\<rparr>)\<rparr>)"
  using assms by (simp add: Logger_init_def Let_def)

lemma Logger_init_TypeError:
  assumes "kw_other kw \<noteq> [] \<or> kw_name kw = None"
  shows "\<exists>x. Logger_init w kw = Inl (TypeError x)"
  using assms by (auto simp: Logger_init_def split: list.splits)

lemma Logger_init_Inr:
  assumes "Logger_init w kw = Inr (w', lg)"
  shows "kw_other kw = []" and "kw_name kw = Some (logger_name lg)"
    and "logger_level lg = (case kw_level kw of None \<Rightarrow> DEBUG | Some l \<Rightarrow> l)"
    and "HandlerRef \<in> set (handlers lg)"
    and "(file_handler lg \<noteq> None) = (kw_file_logging kw = Some True)"
    and "kw_file_logging kw \<noteq> Some True \<Longrightarrow> w' = w"
  using assms
  by (auto simp: Logger_init_def Let_def
      split: list.splits option.splits if_splits sum.splits)

lemma Logger_init_file_handler:
  assumes "Logger_init w kw = Inr (w', lg)" and "file_handler lg = Some fh"
  shows "ext fh = logger_name lg \<and> folder fh = ''logs''"
proof -
  from assms obtain fh0
    where i: "FileHandler_init w (logger_name lg) ''logs'' = Inr (w', fh0)"
      and f: "fh = fh0\<lparr>filters := filters fh0 @ [RelativePathFilter]\<rparr>"
    by (auto simp: Logger_init_def Let_def
        split: list.splits option.splits if_splits sum.splits)
  from FileHandler_init_Inr(3,4) [OF i] f show ?thesis by simp
qed

text \<open>
  C8, as the spec states it, lists a \<open>folder\<close> parameter. The constructor of the logger
  has none: a call that passes \<open>folder\<close> raises \<^verbatim>\<open>TypeError\<close>.
\<close>

theorem Logger_init_folder_counterexample:
  "Logger_init (boot clock_day1) (app_kwargs\<lparr>kw_other := [''folder'']\<rparr>) =
     Inl (TypeError ''folder'')"
  by (simp add: Logger_init_def app_kwargs_def)

text \<open>
  C8, amended. The logger is constructible with exactly the parameters \<open>name\<close>
  (required), \<open>level\<close> (default \<open>DEBUG\<close>) and \<open>file_logging\<close>
      (default false); any other
  keyword, or a missing name, raises \<^verbatim>\<open>TypeError\<close>. Without file logging the
  constructor returns the world as it found it, so no file or directory is created, and
  the console handler is the only handler. With file logging, when the operating system
  refuses neither the folder nor the file, the logger has the console handler and a file
  handler for its name in the folder \<open>logs\<close>, which is not configurable. After any
  successful construction the console handler is present, and the file handler is
  present if and only if file logging was requested.
\<close>

theorem Logger_init_parameters:
  "(kw_other kw \<noteq> [] \<or> kw_name kw = None \<longrightarrow>
      (\<exists>x. Logger_init w kw = Inl (TypeError x))) \<and>
   (kw_other kw = [] \<and> kw_name kw = Some n \<and> kw_file_logging kw \<noteq> Some True \<longrightarrow>
      (\<exists>lg. Logger_init w kw = Inr (w, lg) \<and> logger_name lg = n \<and>
            logger_level lg = (case kw_level kw of None \<Rightarrow> DEBUG | Some l \<Rightarrow> l) \<and>
            handlers lg = [HandlerRef] \<and> file_handler lg = None)) \<and>
   (kw_other kw = [] \<and> kw_name kw = Some n \<and> kw_file_logging kw = Some True \<and>
    ((abspath (getcwd w) ''logs'' \<in> set (dirs w) \<or>
      \<not> denied w (abspath (getcwd w) ''logs'') \<and>
      files w (abspath (getcwd w) ''logs'') = None) \<and>
     prefix ''/'' (getcwd w) \<and>
     \<not> denied w
         (abspath (getcwd w) (joinpath ''logs'' (log_filename (clock w (ticks w)) n)))) \<longrightarrow>
      (\<exists>w1 lg fh. Logger_init w kw = Inr (w1, lg) \<and> logger_name lg = n \<and>
            logger_level lg = (case kw_level kw of None \<Rightarrow> DEBUG | Some l \<Rightarrow> l) \<and>
            handlers lg = [HandlerRef, FileHandlerRef] \<and>
            file_handler lg = Some fh \<and> ext fh = n \<and> folder fh = ''logs'' \<and>
            sink_open w1 fh)) \<and>
   (Logger_init w kw = Inr (w', lg') \<longrightarrow>
      HandlerRef \<in> set (handlers lg') \<and>
      ((file_handler lg' \<noteq> None) = (kw_file_logging kw = Some True)) \<and>
      (kw_file_logging kw \<noteq> Some True \<longrightarrow> w' = w))"
proof (intro conjI impI)
  assume "kw_other kw \<noteq> [] \<or> kw_name kw = None"
  then show "\<exists>x. Logger_init w kw = Inl (TypeError x)" by (rule Logger_init_TypeError)
next
  assume "kw_other kw = [] \<and> kw_name kw = Some n \<and> kw_file_logging kw \<noteq> Some True"
  then have "Logger_init w kw =
           Inr (w, \<lparr>logger_name = n, logger_level = (case kw_level kw of None \<Rightarrow>
               DEBUG | Some l \<Rightarrow> l), handlers = [HandlerRef],
                    handler = \<lparr>level = NOTSET, filters = [RelativePathFilter], formatter =
                        Some Formatter\<rparr>, file_handler = None\<rparr>)"
    by (simp add: Logger_init_console_only)
  then show "\<exists>lg. Logger_init w kw = Inr (w, lg) \<and> logger_name lg = n \<and>
      logger_level lg = (case kw_level kw of None \<Rightarrow> DEBUG | Some l \<Rightarrow> l)
          \<and> handlers lg = [HandlerRef] \<and> file_handler lg = None"
    by simp
next
  assume a: "kw_other kw = [] \<and> kw_name kw = Some n \<and> kw_file_logging kw = Some True
      \<and> ((abspath (getcwd w) ''logs'' \<in> set (dirs w) \<or> \<not> denied w (abspath (getcwd
      w) ''logs'') \<and> files w (abspath (getcwd w) ''logs'') = None) \<and> prefix ''/'' (getcwd
      w) \<and> \<not> denied w (abspath (getcwd w) (joinpath ''logs'' (log_filename (clock w (ticks
      w)) n))))"
  then have i: "FileHandler_init w n ''logs'' =
           Inr (w\<lparr>ticks := Suc (ticks w),
                  dirs := (if abspath (getcwd w) ''logs'' \<in> set (dirs w) then dirs w
                           else dirs w @ [abspath (getcwd w) ''logs'']),
                  files := (files w)
                    (abspath (getcwd w) (joinpath ''logs'' (log_filename (clock w (ticks w)) n)) \<mapsto>
                     (case files w (abspath (getcwd w)
                        (joinpath ''logs'' (log_filename (clock w (ticks w)) n))) of
                        None \<Rightarrow> [] | Some content \<Rightarrow> content)),
                  opened := opened w @
                    [abspath (getcwd w) (joinpath ''logs'' (log_filename (clock w (ticks w)) n))],
                  trace := trace w @
                    (if abspath (getcwd w) ''logs'' \<in> set (dirs w) then []
                     else [Mkdir (abspath (getcwd w) ''logs'')]) @
                    [Open (abspath (getcwd w)
                       (joinpath ''logs'' (log_filename (clock w (ticks w)) n))) ModeA]\<rparr>,
                \<lparr>level = NOTSET, filters = [], formatter = Some Formatter, folder = ''logs'',
                 ext = n,
                 baseFilename =
                   abspath (getcwd w) (joinpath ''logs'' (log_filename (clock w (ticks w)) n)),
                 mode = ModeA,
                 stream = Some (abspath (getcwd w)
                   (joinpath ''logs'' (log_filename (clock w (ticks w)) n))),
                 closed_flag = False, last_entry = None\<rparr>)"
    by (intro FileHandler_init_ok) simp_all
  from a have b: "kw_other kw = []" "kw_name kw = Some n" "kw_file_logging kw = Some True"
    by simp_all
  show "\<exists>w1 lg fh. Logger_init w kw = Inr (w1, lg) \<and> logger_name lg = n \<and>
            logger_level lg = (case kw_level kw of None \<Rightarrow> DEBUG | Some l \<Rightarrow>
                l) \<and> handlers lg = [HandlerRef, FileHandlerRef] \<and>
            file_handler lg = Some fh \<and> ext fh = n \<and> folder fh = ''logs'' \<and>
            sink_open w1 fh"
    unfolding Logger_init_with_file [OF b i] by (simp add: sink_open_def)
next
  assume r: "Logger_init w kw = Inr (w', lg')"
  show "HandlerRef \<in> set (handlers lg')" by (rule Logger_init_Inr(4) [OF r])
  show "(file_handler lg' \<noteq> None) = (kw_file_logging kw = Some True)"
    by (rule Logger_init_Inr(5) [OF r])
  assume "kw_file_logging kw \<noteq> Some True"
  then show "w' = w" by (rule Logger_init_Inr(6) [OF r])
qed

theorem Logger_init_parameters_witness:
  "(\<exists>x. Logger_init (boot clock_day1) (app_kwargs\<lparr>kw_other := [''folder'']\<rparr>) =
        Inl (TypeError x)) \<and>
   (\<exists>lg. Logger_init (boot clock_day1) app_kwargs = Inr (boot clock_day1, lg) \<and>
         logger_name lg = ''application'' \<and> logger_level lg = DEBUG \<and>
         handlers lg = [HandlerRef] \<and> file_handler lg = None) \<and>
   (\<exists>w1 lg fh. Logger_init (FileHandler_class_body (boot clock_next_day))
       (app_kwargs\<lparr>kw_file_logging := Some True\<rparr>) = Inr (w1, lg) \<and>
         handlers lg = [HandlerRef, FileHandlerRef] \<and> file_handler lg = Some fh \<and>
         ext fh = ''application'' \<and> folder fh = ''logs'')"
proof (intro conjI)
  show "\<exists>x. Logger_init (boot clock_day1) (app_kwargs\<lparr>kw_other := [''folder'']\<rparr>) =
        Inl (TypeError x)"
    using Logger_init_parameters [where w = "boot clock_day1"
        and kw = "app_kwargs\<lparr>kw_other := [''folder'']\<rparr>", THEN conjunct1]
    by (simp add: app_kwargs_def)
  show "\<exists>lg. Logger_init (boot clock_day1) app_kwargs = Inr (boot clock_day1, lg) \<and>
         logger_name lg = ''application'' \<and> logger_level lg = DEBUG \<and>
         handlers lg = [HandlerRef] \<and> file_handler lg = None"
    using Logger_init_parameters [where w = "boot clock_day1" and kw = app_kwargs
        and n = "''application''", THEN conjunct2, THEN conjunct1]
    by (simp add: app_kwargs_def)
  have "\<exists>w1 lg fh. Logger_init (FileHandler_class_body (boot clock_next_day))
      (app_kwargs\<lparr>kw_file_logging := Some True\<rparr>) = Inr (w1, lg) \<and>
         logger_name lg = ''application'' \<and>
         logger_level lg = (case kw_level (app_kwargs\<lparr>kw_file_logging := Some True\<rparr>) of
            None \<Rightarrow> DEBUG | Some l \<Rightarrow> l) \<and>
         handlers lg = [HandlerRef, FileHandlerRef] \<and> file_handler lg = Some fh \<and>
         ext fh = ''application'' \<and> folder fh = ''logs'' \<and> sink_open w1 fh"
    using Logger_init_parameters [where w = "(FileHandler_class_body (boot clock_next_day))"
        and kw = "app_kwargs\<lparr>kw_file_logging := Some True\<rparr>"
        and n = "''application''", THEN conjunct2, THEN conjunct2, THEN conjunct1]
    by (simp add: app_kwargs_def started permissive_def nothing_def)
  then show "\<exists>w1 lg fh. Logger_init (FileHandler_class_body (boot clock_next_day))
      (app_kwargs\<lparr>kw_file_logging := Some True\<rparr>) = Inr (w1, lg) \<and>
         handlers lg = [HandlerRef, FileHandlerRef] \<and> file_handler lg = Some fh \<and>
         ext fh = ''application'' \<and> folder fh = ''logs''"
    by blast
qed

subsection \<open>File names and the mode of opening\<close>

lemma ymd_day1: "strftime_ymd day1 = ''2021-08-29''"
  by (simp add: day1_def render_simps)

lemma ymd_day2: "strftime_ymd day2 = ''2021-08-30''"
  by (simp add: day2_def render_simps)

text \<open>
  C7, as the spec states it, names the file after the date the handler's state records.
  Right after construction that fails when the class body ran on an earlier day: the
  file carries the day of construction, 30 August, and the recorded timestamp, still the
  class attribute, is of 29 August.
\<close>

theorem FileHandler_init_date_counterexample:
  "map_option (baseFilename \<circ> snd)
     (outcome (FileHandler_init (FileHandler_class_body (boot clock_next_day)) ''application''
         ''logs'')) = Some ''/app/logs/2021-08-30-application.log'' \<and>
   map_option (strftime_ymd \<circ> case_prod get_last_entry)
     (outcome (FileHandler_init (FileHandler_class_body (boot clock_next_day)) ''application''
         ''logs'')) = Some ''2021-08-29''"
proof -
  from started_init obtain w1
    where i: "FileHandler_init (FileHandler_class_body (boot clock_next_day)) ''application''
        ''logs'' = Inr (w1, \<lparr>level = NOTSET, filters = [], formatter = Some Formatter, folder
        = ''logs'', ext = ''application'', baseFilename = ''/app/logs/2021-08-30-application.log'',
        mode = ModeA, stream = Some ''/app/logs/2021-08-30-application.log'', closed_flag = False,
        last_entry = None\<rparr>)"
    by blast
  have l: "FileHandler_last_entry w1 = day1"
    using FileHandler_init_Inr(2) [OF i] by (simp add: started)
  show ?thesis
    unfolding i by (simp add: outcome_def get_last_entry_def l ymd_day1)
qed

text \<open>
  C7, amended. The file handler of a logger has the logger's name as \<open>ext\<close> and the
  folder \<open>logs\<close>. The constructor opens \<open>folder/YYYY-MM-DD-ext.log\<close>, made
      absolute, where
  the date is that of the clock at construction; a rotation opens
  \<open>folder/YYYY-MM-DD-ext.log\<close> where the date is the one the handler records from then on.
  Both open in append mode: the content the file had before is kept, at construction as
  it is and at a rotation followed by the line written.
\<close>

theorem FileHandler_dated_file_append_mode:
  "(Logger_init w kw = Inr (w0, lg) \<and> file_handler lg = Some fh \<longrightarrow>
      kw_name kw = Some (ext fh) \<and> folder fh = ''logs'') \<and>
   ((((abspath (getcwd w) dir) \<in> set (dirs w) \<or>
      \<not> denied w (abspath (getcwd w) dir) \<and> files w (abspath (getcwd w) dir) = None) \<and>
     prefix ''/'' (getcwd w) \<and>
     \<not> denied w
         (abspath (getcwd w)
           (joinpath dir (strftime_ymd (clock w (ticks w)) @ ''-'' @ e @ ''.log'')))) \<longrightarrow>
    (\<exists>w1 h.
       FileHandler_init w e dir = Inr (w1, h) \<and> ext h = e \<and> folder h = dir \<and>
       baseFilename h =
         (abspath (getcwd w)
           (joinpath dir (strftime_ymd (clock w (ticks w)) @ ''-'' @ e @ ''.log''))) \<and>
       stream h =
         Some (abspath (getcwd w)
           (joinpath dir (strftime_ymd (clock w (ticks w)) @ ''-'' @ e @ ''.log''))) \<and>
       mode h = ModeA \<and>
       Open (abspath (getcwd w)
           (joinpath dir (strftime_ymd (clock w (ticks w)) @ ''-'' @ e @ ''.log''))) ModeA
         \<in> set (new_events w w1) \<and>
       files w1 (abspath (getcwd w)
           (joinpath dir (strftime_ymd (clock w (ticks w)) @ ''-'' @ e @ ''.log''))) =
         Some (case files w (abspath (getcwd w)
                 (joinpath dir (strftime_ymd (clock w (ticks w)) @ ''-'' @ e @ ''.log''))) of
               None \<Rightarrow> [] | Some content \<Rightarrow> content))) \<and>
   ((stream h0 = Some key \<and> key \<in> set (opened w) \<and> mode h0 = ModeA \<and>
     Handler_format h0 r = Inr (line, r') \<and>
     date (get_last_entry w h0) \<noteq> date (clock w (ticks w)) \<and>
     \<not> denied w
         (abspath (getcwd w)
           (joinpath (folder h0)
             (strftime_ymd (clock w (Suc (ticks w))) @ ''-'' @ ext h0 @ ''.log'')))) \<longrightarrow>
    (\<exists>w2 h'.
       FileHandler_emit w h0 r = Inr (w2, h', r') \<and>
       get_last_entry w2 h' = clock w (Suc (ticks w)) \<and>
       ext h' = ext h0 \<and> folder h' = folder h0 \<and> mode h' = ModeA \<and>
       baseFilename h' =
         joinpath (folder h0) (strftime_ymd (get_last_entry w2 h') @ ''-'' @ ext h0 @ ''.log'') \<and>
       stream h' = Some (abspath (getcwd w) (baseFilename h')) \<and>
       Open (abspath (getcwd w) (baseFilename h')) ModeA \<in> set (new_events w w2) \<and>
       files w2 (abspath (getcwd w) (baseFilename h')) =
         Some ((case files w (abspath (getcwd w) (baseFilename h')) of
                  None \<Rightarrow> [] | Some content \<Rightarrow> content) @ line @ [CHR 0x0A])))"
proof (intro conjI impI)
  assume a: "Logger_init w kw = Inr (w0, lg) \<and> file_handler lg = Some fh"
  then have r: "Logger_init w kw = Inr (w0, lg)" and f: "file_handler lg = Some fh"
    by simp_all
  from Logger_init_Inr(2) [OF r] Logger_init_file_handler [OF r f]
  show "kw_name kw = Some (ext fh)" and "folder fh = ''logs''" by simp_all
next
  assume a: "(((abspath (getcwd w) dir) \<in> set (dirs w) \<or> \<not> denied w (abspath (getcwd w)
      dir) \<and> files w (abspath (getcwd w) dir) = None) \<and> prefix ''/'' (getcwd w) \<and>
      \<not> denied w (abspath (getcwd w) (joinpath dir (strftime_ymd (clock w (ticks w)) @ ''-'' @
      e @ ''.log''))))"
  note i = FileHandler_init_ok [of w dir e, unfolded log_filename_def]
  from a have "FileHandler_init w e dir = Inr
     (w\<lparr>ticks := Suc (ticks w),
         dirs := (if (abspath (getcwd w) dir) \<in> set (dirs w) then dirs w else dirs w @ [(abspath
             (getcwd w) dir)]),
         files := (files w)((abspath (getcwd w) (joinpath dir (strftime_ymd (clock w (ticks w)) @
             ''-'' @ e @ ''.log''))) \<mapsto> (case files w (abspath (getcwd w) (joinpath dir
             (strftime_ymd (clock w (ticks w)) @ ''-'' @ e @ ''.log''))) of None \<Rightarrow> [] |
             Some content \<Rightarrow> content)),
         opened := opened w @ [(abspath (getcwd w) (joinpath dir (strftime_ymd (clock w (ticks w)) @
             ''-'' @ e @ ''.log'')))],
         trace := trace w @ (if (abspath (getcwd w) dir) \<in> set (dirs w) then [] else [Mkdir
             (abspath (getcwd w) dir)]) @ [Open (abspath (getcwd w) (joinpath dir (strftime_ymd
             (clock w (ticks w)) @ ''-'' @ e @ ''.log''))) ModeA]\<rparr>,
      \<lparr>level = NOTSET, filters = [], formatter = Some Formatter, folder = dir,
       ext = e, baseFilename = (abspath (getcwd w) (joinpath dir (strftime_ymd (clock w (ticks w)) @
           ''-'' @ e @ ''.log''))), mode = ModeA, stream = Some (abspath (getcwd w) (joinpath dir
           (strftime_ymd (clock w (ticks w)) @ ''-'' @ e @ ''.log''))),
       closed_flag = False, last_entry = None\<rparr>)"
    by (intro i) simp_all
  then show "(\<exists>w1 h. FileHandler_init w e dir = Inr (w1, h) \<and> ext h = e \<and> folder h
      = dir \<and> baseFilename h = (abspath (getcwd w) (joinpath dir (strftime_ymd (clock w (ticks
      w)) @ ''-'' @ e @ ''.log''))) \<and> stream h = Some (abspath (getcwd w) (joinpath dir
      (strftime_ymd (clock w (ticks w)) @ ''-'' @ e @ ''.log''))) \<and> mode h = ModeA \<and> Open
      (abspath (getcwd w) (joinpath dir (strftime_ymd (clock w (ticks w)) @ ''-'' @ e @ ''.log'')))
      ModeA \<in> set (new_events w w1) \<and> files w1 (abspath (getcwd w) (joinpath dir
      (strftime_ymd (clock w (ticks w)) @ ''-'' @ e @ ''.log''))) = Some (case files w (abspath
      (getcwd w) (joinpath dir (strftime_ymd (clock w (ticks w)) @ ''-'' @ e @ ''.log''))) of None
      \<Rightarrow> [] | Some content \<Rightarrow> content))"
    by (simp add: new_events_def)
next
  assume a: "(stream h0 = Some key \<and> key \<in> set (opened w) \<and> mode h0 = ModeA \<and>
      Handler_format h0 r = Inr (line, r') \<and> date (get_last_entry w h0) \<noteq> date (clock w
      (ticks w)) \<and> \<not> denied w (abspath (getcwd w) (joinpath (folder h0) (strftime_ymd
      (clock w (Suc (ticks w))) @ ''-'' @ ext h0 @ ''.log''))))"
  then have 1: "stream h0 = Some key" and 2: "key \<in> set (opened w)" and 3: "mode h0 = ModeA"
    and 4: "Handler_format h0 r = Inr (line, r')"
    and 5: "date (get_last_entry w h0) \<noteq> date (clock w (ticks w))"
    and 6: "\<not> denied w (abspath (getcwd w) (joinpath (folder h0) (strftime_ymd (clock w (Suc
        (ticks w))) @ ''-'' @ ext h0 @ ''.log'')))"
    by simp_all
  note r = FileHandler_emit_rotate [of h0 key w r line r', unfolded log_filename_def,
      OF 1 2 4 5 3 6]
  show "(\<exists>w2 h'. FileHandler_emit w h0 r = Inr (w2, h', r') \<and> get_last_entry w2 h' =
      clock w (Suc (ticks w)) \<and> ext h' = ext h0 \<and> folder h' = folder h0 \<and> mode h' =
      ModeA \<and> baseFilename h' = joinpath (folder h0) (strftime_ymd (get_last_entry w2 h') @
      ''-'' @ ext h0 @ ''.log'') \<and> stream h' = Some (abspath (getcwd w) (baseFilename h'))
      \<and> Open (abspath (getcwd w) (baseFilename h')) ModeA \<in> set (new_events w w2) \<and>
      files w2 (abspath (getcwd w) (baseFilename h')) = Some ((case files w (abspath (getcwd w)
      (baseFilename h')) of None \<Rightarrow> [] | Some content \<Rightarrow> content) @ line @
      [CHR 0x0A]))"
    unfolding r by (simp add: new_events_def get_last_entry_def 3)
qed

theorem FileHandler_dated_file_append_mode_witness:
  "(\<exists>w1 lg fh.
      Logger_init (FileHandler_class_body (boot clock_next_day)) (app_kwargs\<lparr>kw_file_logging
          := Some True\<rparr>) = Inr (w1, lg) \<and>
      file_handler lg = Some fh \<and> ext fh = ''application'' \<and> folder fh = ''logs'' \<and>
      baseFilename fh = ''/app/logs/2021-08-30-application.log'') \<and>
   (\<exists>w1 h. FileHandler_init (FileHandler_class_body (boot clock_next_day)) ''application''
       ''logs'' = Inr (w1, h) \<and>
      baseFilename h = ''/app/logs/2021-08-30-application.log'' \<and> mode h = ModeA \<and> Open
          ''/app/logs/2021-08-30-application.log'' ModeA \<in> set (new_events
          (FileHandler_class_body (boot clock_next_day)) w1) \<and>
      files w1 ''/app/logs/2021-08-30-application.log'' = Some []) \<and>
   (\<exists>w2 h' r'.
      FileHandler_emit (running clock_day2 day1) (sink_on day1) hello = Inr (w2, h', r') \<and>
      baseFilename h' = ''logs/2021-08-30-application.log'' \<and>
      strftime_ymd (get_last_entry w2 h') = ''2021-08-30'' \<and>
      Open ''/app/logs/2021-08-30-application.log'' ModeA \<in> set (new_events (running clock_day2
          day1) w2) \<and>
      files w2 ''/app/logs/2021-08-30-application.log'' = Some ((CHR 0x1B # ''[92m[2021-08-29 17:05:32,000] | /app/main.py:7 | INFO | Hello, world!''
          @ CHR 0x1B # ''[0m'') @ [CHR 0x0A]))"
proof (intro conjI)
  from started_init obtain w1
    where i: "FileHandler_init (FileHandler_class_body (boot clock_next_day)) ''application''
        ''logs'' = Inr (w1, \<lparr>level = NOTSET, filters = [], formatter = Some Formatter, folder
        = ''logs'', ext = ''application'', baseFilename = ''/app/logs/2021-08-30-application.log'',
        mode = ModeA, stream = Some ''/app/logs/2021-08-30-application.log'', closed_flag = False,
        last_entry = None\<rparr>)"
    by blast
  have k: "kw_other (app_kwargs\<lparr>kw_file_logging := Some True\<rparr>) = []"
    "kw_name (app_kwargs\<lparr>kw_file_logging := Some True\<rparr>) = Some ''application''"
    "kw_file_logging (app_kwargs\<lparr>kw_file_logging := Some True\<rparr>) = Some True"
    by (simp_all add: app_kwargs_def)
  note l = Logger_init_with_file [OF k i]
  have f: "file_handler \<lparr>logger_name = ''application'',
             logger_level = (case kw_level (app_kwargs\<lparr>kw_file_logging := Some True\<rparr>) of
               None \<Rightarrow> DEBUG | Some l \<Rightarrow> l),
             handlers = [HandlerRef, FileHandlerRef],
             handler = \<lparr>level = NOTSET, filters = [RelativePathFilter],
                        formatter = Some Formatter\<rparr>,
             file_handler = Some (\<lparr>level = NOTSET, filters = [], formatter = Some Formatter,
                 folder = ''logs'', ext = ''application'', baseFilename =
                 ''/app/logs/2021-08-30-application.log'', mode = ModeA, stream = Some
                 ''/app/logs/2021-08-30-application.log'', closed_flag = False, last_entry =
                 None\<rparr>\<lparr>filters := filters \<lparr>level = NOTSET, filters = [],
                 formatter = Some Formatter, folder = ''logs'', ext = ''application'', baseFilename
                 = ''/app/logs/2021-08-30-application.log'', mode = ModeA, stream = Some
                 ''/app/logs/2021-08-30-application.log'', closed_flag = False, last_entry =
                 None\<rparr> @ [RelativePathFilter]\<rparr>)\<rparr> =
           Some (\<lparr>level = NOTSET, filters = [], formatter = Some Formatter, folder =
               ''logs'', ext = ''application'', baseFilename =
               ''/app/logs/2021-08-30-application.log'', mode = ModeA, stream = Some
               ''/app/logs/2021-08-30-application.log'', closed_flag = False, last_entry =
               None\<rparr>\<lparr>filters := filters \<lparr>level = NOTSET, filters = [],
               formatter = Some Formatter, folder = ''logs'', ext = ''application'', baseFilename =
               ''/app/logs/2021-08-30-application.log'', mode = ModeA, stream = Some
               ''/app/logs/2021-08-30-application.log'', closed_flag = False, last_entry =
               None\<rparr> @ [RelativePathFilter]\<rparr>)"
    by simp
  from FileHandler_dated_file_append_mode [THEN conjunct1, rule_format, OF conjI, OF l f] l
  show "\<exists>w1 lg fh.
      Logger_init (FileHandler_class_body (boot clock_next_day)) (app_kwargs\<lparr>kw_file_logging
          := Some True\<rparr>) = Inr (w1, lg) \<and>
      file_handler lg = Some fh \<and> ext fh = ''application'' \<and> folder fh = ''logs'' \<and>
      baseFilename fh = ''/app/logs/2021-08-30-application.log''"
    by simp
next
  have p: "abspath (getcwd (FileHandler_class_body (boot clock_next_day)))
             (joinpath ''logs'' (strftime_ymd (clock (FileHandler_class_body (boot clock_next_day))
                 (ticks (FileHandler_class_body (boot clock_next_day)))) @ ''-'' @ ''application'' @
                 ''.log'')) = ''/app/logs/2021-08-30-application.log''"
    using path_day2 by (simp add: started clock_next_day_def log_filename_def)
  have d: "abspath (getcwd (FileHandler_class_body (boot clock_next_day))) ''logs'' = ''/app/logs''"
    by (simp add: started abspath_def)
  from FileHandler_dated_file_append_mode [where w = "(FileHandler_class_body (boot
      clock_next_day))" and dir = "''logs''"
      and e = "''application''", THEN conjunct2, THEN conjunct1, unfolded p d]
  show "\<exists>w1 h. FileHandler_init (FileHandler_class_body (boot clock_next_day))
      ''application'' ''logs'' = Inr (w1, h) \<and>
      baseFilename h = ''/app/logs/2021-08-30-application.log'' \<and> mode h = ModeA \<and> Open
          ''/app/logs/2021-08-30-application.log'' ModeA \<in> set (new_events
          (FileHandler_class_body (boot clock_next_day)) w1) \<and>
      files w1 ''/app/logs/2021-08-30-application.log'' = Some []"
    by (auto simp: started permissive_def nothing_def)
next
  have 1: "stream (sink_on day1) = Some ''/app/logs/2021-08-29-application.log''" by (simp add:
      sink_on_def path_day1)
  have 2: "''/app/logs/2021-08-29-application.log'' \<in> set (opened (running clock_day2 day1))" by
      (simp add: running_def path_day1)
  have 3: "mode (sink_on day1) = ModeA" by (simp add: sink_on_def)
  have 5: "date (get_last_entry (running clock_day2 day1) (sink_on day1)) \<noteq>
           date (clock (running clock_day2 day1) (ticks (running clock_day2 day1)))"
    by (simp add: get_last_entry_def sink_on_def running_def clock_day2_def days_differ)
  have 6: "\<not> denied (running clock_day2 day1)
             (abspath (getcwd (running clock_day2 day1))
               (joinpath (folder (sink_on day1))
                 (strftime_ymd (clock (running clock_day2 day1)
                    (Suc (ticks (running clock_day2 day1)))) @ ''-'' @ ext (sink_on day1) @
                  ''.log'')))"
    by (simp add: running_def permissive_def)
  have b: "joinpath (folder (sink_on day1)) (''2021-08-30'' @ ''-'' @ ext (sink_on day1) @ ''.log'') =
           ''logs/2021-08-30-application.log''"
    by (simp add: sink_on_def joinpath_def)
  have g: "abspath (getcwd (running clock_day2 day1)) ''logs/2021-08-30-application.log'' =
      ''/app/logs/2021-08-30-application.log''"
    by (simp add: running_def abspath_def)
  have f: "files (running clock_day2 day1) ''/app/logs/2021-08-30-application.log'' = None"
    by (simp add: running_def path_day1 nothing_def)
  from FileHandler_dated_file_append_mode [where w = "running clock_day2 day1"
      and ?h0.0 = "sink_on day1" and key = "''/app/logs/2021-08-29-application.log''" and r = hello
          and line = "(CHR 0x1B # ''[92m[2021-08-29 17:05:32,000] | /app/main.py:7 | INFO | Hello, world!''
          @ CHR 0x1B # ''[0m'')"
      and r' = "hello\<lparr>message := Some ''Hello, world!'',
                 asctime := Some ''2021-08-29 17:05:32,000''\<rparr>",
      THEN conjunct2, THEN conjunct2, rule_format, OF conjI, OF 1 conjI, OF 2 conjI,
      OF 3 conjI, OF hello_line conjI, OF 5 6]
  obtain w2 h' where e: "FileHandler_emit (running clock_day2 day1) (sink_on day1) hello =
        Inr (w2, h', hello\<lparr>message := Some ''Hello, world!'',
                 asctime := Some ''2021-08-29 17:05:32,000''\<rparr>)"
    and gl: "get_last_entry w2 h' =
        clock (running clock_day2 day1) (Suc (ticks (running clock_day2 day1)))"
    and n: "baseFilename h' = joinpath (folder (sink_on day1))
        (strftime_ymd (get_last_entry w2 h') @ ''-'' @ ext (sink_on day1) @ ''.log'')"
    and o: "Open (abspath (getcwd (running clock_day2 day1)) (baseFilename h')) ModeA
        \<in> set (new_events (running clock_day2 day1) w2)"
    and c: "files w2 (abspath (getcwd (running clock_day2 day1)) (baseFilename h')) =
        Some ((case files (running clock_day2 day1)
                 (abspath (getcwd (running clock_day2 day1)) (baseFilename h')) of
               None \<Rightarrow> [] | Some content \<Rightarrow> content) @ (CHR 0x1B #
                   ''[92m[2021-08-29 17:05:32,000] | /app/main.py:7 | INFO | Hello, world!'' @ CHR
                   0x1B # ''[0m'') @ [CHR 0x0A])"
    by (elim exE conjE)
  have gl': "get_last_entry w2 h' = day2"
    using gl by (simp add: running_def clock_day2_def)
  have n': "baseFilename h' = ''logs/2021-08-30-application.log''"
    using n by (simp add: gl' ymd_day2 sink_on_def joinpath_def)
  show "\<exists>w2 h' r'.
      FileHandler_emit (running clock_day2 day1) (sink_on day1) hello = Inr (w2, h', r') \<and>
      baseFilename h' = ''logs/2021-08-30-application.log'' \<and>
      strftime_ymd (get_last_entry w2 h') = ''2021-08-30'' \<and>
      Open ''/app/logs/2021-08-30-application.log'' ModeA \<in> set (new_events (running clock_day2
          day1) w2) \<and>
      files w2 ''/app/logs/2021-08-30-application.log'' = Some ((CHR 0x1B # ''[92m[2021-08-29 17:05:32,000] | /app/main.py:7 | INFO | Hello, world!''
          @ CHR 0x1B # ''[0m'') @ [CHR 0x0A])"
    using e n' gl' o c by (auto simp: ymd_day2 g f)
qed

section \<open>Claims about the logger\<close>

lemma Filterer_filter_path:
  "Filterer_filter w [RelativePathFilter] r =
     (True, r\<lparr>pathname := str_replace (pathname r) (getcwd w) ''~''\<rparr>)"
  by (simp add: RelativePathFilter_filter_def)












end
